theory Spec2Isabelle
  imports Main "HOL-Library.Word"
begin

unbundle bit_operations_syntax

section \<open>Data of the launcher\<close>

text \<open>
  The repository holds two variants of one program, \<^verbatim>\<open>rununiproc.cpp\<close>: the first
  (lines 1-193) starts the executable named by \<^verbatim>\<open>argv[1]\<close> as it is, the second
  (lines 195-425) first looks the name up with \<^verbatim>\<open>SearchPath\<close>. Each is a single
  function \<^verbatim>\<open>wmain\<close> that calls the operating system step by step and returns at the
  first failure.

  The model is a function from the answers of the operating system (a record \<open>os\<close>)
  and the argument vector to the value \<^verbatim>\<open>wmain\<close> returns and the list of the calls
  it made, in order, each with its arguments and its answer. Destructors of the
  \<^verbatim>\<open>unique_ptr\<close> locals are calls of that list too, made at each \<^verbatim>\<open>return\<close> in the
  reverse order of the declarations. A run that does not return is one in which a
  \<^verbatim>\<open>new\<close>-expression throws \<^verbatim>\<open>std::bad_alloc\<close>: \<^verbatim>\<open>wmain\<close> has no handler, so the
  program is ended by \<^verbatim>\<open>std::terminate\<close>.

  \<^verbatim>\<open>wchar_t\<close> is a 16-bit unit, \<^verbatim>\<open>DWORD\<close>, \<^verbatim>\<open>unsigned long\<close> and \<^verbatim>\<open>int\<close> are
  32 bits wide, and \<^verbatim>\<open>DWORD_PTR\<close>, \<^verbatim>\<open>SIZE_T\<close> and \<^verbatim>\<open>HANDLE\<close> have the width of a
  pointer: \<open>'a word\<close>, with \<open>'a\<close> of length 64 in the \<^verbatim>\<open>_M_X64\<close> build and 32
  otherwise.
\<close>

type_synonym wchar = "16 word"
type_synonym wstring = "wchar list"
type_synonym dword = "32 word"

text \<open>A wide string literal (prefix \<^verbatim>\<open>L\<close> in the source) of ASCII characters.\<close>

definition L :: "string \<Rightarrow> wstring" where
  "L s = map of_char s"

definition DQUOTE :: wchar where
  "DQUOTE = 0x22"

definition SPACE :: wchar where
  "SPACE = 0x20"

text \<open>
  The calls \<^verbatim>\<open>wmain\<close> makes. \<open>'p\<close> is the pointer-sized word. The last argument of
  a call is what the operating system answered. \<open>Stderr s\<close> is a line written to
  \<^verbatim>\<open>std::wcerr\<close> (or \<^verbatim>\<open>std::cerr\<close>), \<open>StderrNum s n\<close> the text \<open>s\<close> followed by the
  number \<open>n\<close>. \<open>Allocate n p\<close> is \<^verbatim>\<open>new T[n]\<close> giving \<open>p\<close>, \<open>Bad_alloc n\<close> is
  \<^verbatim>\<open>new T[n]\<close> throwing \<^verbatim>\<open>std::bad_alloc\<close>, \<open>Delete p\<close> is \<^verbatim>\<open>delete[] p\<close>. \<^verbatim>\<open>GetCurrentProcess\<close>, \<^verbatim>\<open>GetStdHandle\<close> and \<^verbatim>\<open>GetLastError\<close> only
  read and are not listed.
\<close>

datatype 'p event =
    Stderr string
  | StderrNum string nat
  | Allocate nat 'p
  | Bad_alloc nat
  | Delete 'p
  | SearchPath wstring wstring dword dword
  | CreateJobObject 'p
  | GetProcessAffinityMask "'p option"
  | SetInformationJobObject 'p dword 'p bool
  | InitializeProcThreadAttributeList 'p dword bool
  | DeleteProcThreadAttributeList 'p
  | UpdateProcThreadAttribute 'p "'p list" bool
  | CreateProcess wstring wstring bool dword 'p "('p \<times> 'p) option"
  | AssignProcessToJobObject 'p 'p bool
  | TerminateProcess 'p dword
  | ResumeThread 'p dword
  | WaitForSingleObject 'p dword
  | GetExitCodeProcess 'p "dword option"
  | CloseHandle 'p

text \<open>
  What the operating system (and the C++ runtime) answers. Each call is made at
  most once in a run, apart from the readers named above, so one field per call is
  enough; \<^verbatim>\<open>SearchPath\<close> and \<^verbatim>\<open>CreateProcess\<close> answer by their string arguments.
  \<^item> \<open>ret_SearchPath name ext len\<close>: the returned length and the string then found
    in the buffer; \<open>err_\<close> fields are what \<^verbatim>\<open>GetLastError\<close> gives after the call.
  \<^item> \<open>ret_GetProcessAffinityMask\<close>: \<open>None\<close> when the call fails, else the process
    affinity mask.
  \<^item> \<open>attrListSize\<close>: the size the sizing call stores.
  \<^item> \<open>ret_make_unique\<close>, \<open>ret_new\<close>: the pointers the two allocations yield, 0 when
    there is no memory for them. Both are plain \<^verbatim>\<open>new\<close>-expressions, which throw
    \<^verbatim>\<open>std::bad_alloc\<close> then and never yield null (\<open>operator_new\<close> below).
  \<^item> \<open>ret_CreateProcess app cmd\<close>: \<open>Inl err\<close> when the call fails, else
    \<open>Inr (hProcess, hThread)\<close>.
  \<^item> \<open>ret_GetExitCodeProcess\<close>: \<open>None\<close> when the call fails (\<^verbatim>\<open>exitCode\<close> is then
    left as it was), else the exit code stored.
  \<^item> \<open>shl_out_of_range a n\<close>: the value of \<^verbatim>\<open>a << n\<close> on \<^verbatim>\<open>int\<close> for a count
    \<open>n \<ge> 32\<close>, which the language leaves undefined; the model assumes only that
    the shift yields some value.
\<close>

record 'p os =
  ret_make_unique :: 'p
  ret_SearchPath :: "wstring \<Rightarrow> wstring \<Rightarrow> dword \<Rightarrow> dword \<times> wstring"
  err_SearchPath :: dword
  ret_CreateJobObject :: 'p
  ret_GetProcessAffinityMask :: "'p option"
  shl_out_of_range :: "dword \<Rightarrow> dword \<Rightarrow> dword"
  ret_SetInformationJobObject :: bool
  ret_InitializeProcThreadAttributeList_sizing :: bool
  err_InitializeProcThreadAttributeList_sizing :: dword
  attrListSize :: 'p
  ret_new :: 'p
  ret_InitializeProcThreadAttributeList :: bool
  STD_INPUT_HANDLE :: 'p
  STD_OUTPUT_HANDLE :: 'p
  STD_ERROR_HANDLE :: 'p
  ret_UpdateProcThreadAttribute :: bool
  ret_CreateProcess :: "wstring \<Rightarrow> wstring \<Rightarrow> dword + ('p \<times> 'p)"
  ret_AssignProcessToJobObject :: bool
  err_AssignProcessToJobObject :: dword
  ret_ResumeThread :: dword
  err_ResumeThread :: dword
  ret_WaitForSingleObject :: dword
  err_WaitForSingleObject :: dword
  ret_GetExitCodeProcess :: "dword option"
  err_GetExitCodeProcess :: dword

section \<open>Constants of \<^verbatim>\<open>windows.h\<close>\<close>

definition JOB_OBJECT_LIMIT_AFFINITY :: dword where
  "JOB_OBJECT_LIMIT_AFFINITY = 0x10"

definition ERROR_INSUFFICIENT_BUFFER :: dword where
  "ERROR_INSUFFICIENT_BUFFER = 122"

definition CREATE_SUSPENDED :: dword where
  "CREATE_SUSPENDED = 0x4"

definition CREATE_UNICODE_ENVIRONMENT :: dword where
  "CREATE_UNICODE_ENVIRONMENT = 0x400"

definition EXTENDED_STARTUPINFO_PRESENT :: dword where
  "EXTENDED_STARTUPINFO_PRESENT = 0x80000"

definition WAIT_OBJECT_0 :: dword where
  "WAIT_OBJECT_0 = 0"

section \<open>How a run ends, and allocation\<close>

text \<open>
  \<^verbatim>\<open>wmain\<close> returns a value, or the program is ended by the \<^verbatim>\<open>std::bad_alloc\<close> that
  nothing catches. Whether destructors of locals run in that case is left to the
  implementation; the model takes it that they do not, so the list of calls of such a
  run ends with the allocation that throws.
\<close>

datatype exit = Returns dword | Throws_bad_alloc

text \<open>
  \<^verbatim>\<open>new char[n]\<close> (line 99, 323) and \<^verbatim>\<open>std::make_unique<wchar_t[]>(n)\<close> (line 259):
  \<open>Some\<close> of a pointer that is not null, or \<open>None\<close> for the throw. The tests
  \<^verbatim>\<open>if (!attrList)\<close> and \<^verbatim>\<open>if (!exePathBuf)\<close> that follow in the source are kept in the
  model as written; no run takes them. The stream and the string of the command line
  allocate as well; the model takes these allocations to succeed.
\<close>

definition operator_new :: "'a::len word \<Rightarrow> 'a word option" where
  "operator_new answer = (if answer = 0 then None else Some answer)"

definition at_return :: "exit \<Rightarrow> 'p event list \<Rightarrow> 'p event list" where
  "at_return r dtors = (case r of Returns code \<Rightarrow> dtors | Throws_bad_alloc \<Rightarrow> [])"

section \<open>Destructors (lines 24-48)\<close>

definition HandleDeleter :: "'a::len word \<Rightarrow> 'a word event list" where
  "HandleDeleter aHandle = (if aHandle \<noteq> 0 then [CloseHandle aHandle] else [])"

definition ProcThreadAttrListDeleter :: "'a::len word \<Rightarrow> 'a word event list" where
  "ProcThreadAttrListDeleter aAttrList =
     [DeleteProcThreadAttributeList aAttrList, Delete aAttrList]"

text \<open>\<^verbatim>\<open>std::unique_ptr\<close> calls its deleter only on a pointer that is not null.\<close>

definition unique_ptr_dtor ::
  "('a::len word \<Rightarrow> 'a word event list) \<Rightarrow> 'a word \<Rightarrow> 'a word event list" where
  "unique_ptr_dtor deleter p = (if p \<noteq> 0 then deleter p else [])"

definition UniqueHandle_dtor :: "'a::len word \<Rightarrow> 'a word event list" where
  "UniqueHandle_dtor h = unique_ptr_dtor HandleDeleter h"

definition ProcThreadAttributeListPtr_dtor :: "'a::len word \<Rightarrow> 'a word event list" where
  "ProcThreadAttributeListPtr_dtor p = unique_ptr_dtor ProcThreadAttrListDeleter p"

definition array_dtor :: "'a::len word \<Rightarrow> 'a word event list" where
  "array_dtor p = unique_ptr_dtor (\<lambda>q. [Delete q]) p"

section \<open>The CPU of the job (lines 72-81, 296-305)\<close>

text \<open>
  \<^verbatim>\<open>CPU_BITSCANFORWARD\<close> is the compiler intrinsic \<^verbatim>\<open>_BitScanForward64\<close> (or
  \<^verbatim>\<open>_BitScanForward\<close> in the 32-bit build): it searches the mask from bit 0 upwards
  for a set bit, returns 0 when there is none and otherwise stores the position in
  \<^verbatim>\<open>index\<close>, an \<^verbatim>\<open>unsigned long\<close>. \<open>bit_scan n i Mask\<close> looks at the \<open>n\<close> positions
  from \<open>i\<close> on.
\<close>

fun bit_scan :: "nat \<Rightarrow> nat \<Rightarrow> 'a::len word \<Rightarrow> nat option" where
  "bit_scan 0 i Mask = None"
| "bit_scan (Suc n) i Mask = (if bit Mask i then Some i else bit_scan n (Suc i) Mask)"

definition CPU_BITSCANFORWARD :: "'a::len word \<Rightarrow> dword option" where
  "CPU_BITSCANFORWARD Mask = map_option of_nat (bit_scan LENGTH('a) 0 Mask)"

text \<open>
  \<^verbatim>\<open>a << n\<close> on \<^verbatim>\<open>int\<close>: the bits of \<open>a\<close> moved up by \<open>n\<close> within 32 bits, for a
  count below 32.
\<close>

definition shl_int :: "'p os \<Rightarrow> dword \<Rightarrow> dword \<Rightarrow> dword" where
  "shl_int os a n = (if unat n < 32 then push_bit (unat n) a else shl_out_of_range os a n)"

text \<open>
  \<^verbatim>\<open>basicLimitInfo.Affinity = (1 << index)\<close>: the shift is done on \<^verbatim>\<open>int\<close>, since the
  literal \<^verbatim>\<open>1\<close> is an \<^verbatim>\<open>int\<close>, and the \<^verbatim>\<open>int\<close> is then converted to the
  pointer-sized unsigned \<^verbatim>\<open>ULONG_PTR\<close>, which extends its sign.
\<close>

definition Affinity_of_index :: "'a::len word os \<Rightarrow> dword \<Rightarrow> 'a word" where
  "Affinity_of_index os index = scast (shl_int os 1 index)"

section \<open>The command line (lines 127-135, 351-364)\<close>

text \<open>
  The loop \<^verbatim>\<open>for (int i = k; i < argc; ++i)\<close> of both variants, \<open>oss\<close> being what the
  stream holds so far; \<^verbatim>\<open>argc\<close> is the length of \<open>argv\<close>.
\<close>

function quote_args :: "wstring list \<Rightarrow> nat \<Rightarrow> wstring \<Rightarrow> wstring" where
  "quote_args argv i oss =
     (if i < length argv
      then quote_args argv (Suc i)
             (oss @ [DQUOTE] @ argv ! i @ [DQUOTE] @
              (if int i \<noteq> int (length argv) - 1 then [SPACE] else []))
      else oss)"
  by pat_completeness auto
termination
  by (relation "measure (\<lambda>(argv, i, oss). length argv - i)") auto

declare quote_args.simps [simp del]

definition cmdLine_direct :: "wstring list \<Rightarrow> wstring" where
  "cmdLine_direct argv = quote_args argv 1 []"

definition cmdLine_search :: "wstring \<Rightarrow> wstring list \<Rightarrow> wstring" where
  "cmdLine_search exePathBuf argv =
     quote_args argv 2
       ([DQUOTE] @ exePathBuf @ [DQUOTE] @ (if int (length argv) > 2 then [SPACE] else []))"

section \<open>The job object and the attribute list (lines 58-125, 282-349)\<close>

text \<open>
  The two variants have this part word for word in common. The result is \<open>Inl\<close> of
  how the run ends and the calls made, when a step fails (\<^verbatim>\<open>wmain\<close> returns 1, the
  destructors of \<^verbatim>\<open>attrList\<close> and \<^verbatim>\<open>job\<close> included) or the allocation throws, and
  otherwise \<open>Inr\<close> of the job, the attribute list and the calls made.
\<close>

definition acquire ::
  "'a::len word os \<Rightarrow>
     (exit \<times> 'a word event list) + ('a word \<times> 'a word \<times> 'a word event list)" where
  "acquire os =
    (let job = ret_CreateJobObject os;
         t1 = [CreateJobObject job] in
     if job = 0 then Inl (Returns 1, t1 @ [Stderr ''CreateJobObject failed.''])
     else
     let t2 = t1 @ [GetProcessAffinityMask (ret_GetProcessAffinityMask os)] in
     case ret_GetProcessAffinityMask os of
       None \<Rightarrow>
         Inl (Returns 1, t2 @ [Stderr ''Unable to obtain our CPU affinity mask.'']
                 @ UniqueHandle_dtor job)
     | Some processAffinityMask \<Rightarrow>
     (case CPU_BITSCANFORWARD processAffinityMask of
       None \<Rightarrow>
         Inl (Returns 1, t2 @ [Stderr ''CPU affinity mask is zero?!''] @ UniqueHandle_dtor job)
     | Some index \<Rightarrow>
     let t3 = t2 @ [SetInformationJobObject job JOB_OBJECT_LIMIT_AFFINITY
                      (Affinity_of_index os index) (ret_SetInformationJobObject os)] in
     if \<not> ret_SetInformationJobObject os
     then Inl (Returns 1, t3 @ [Stderr ''Unable to set basic limit information on job object.'']
                  @ UniqueHandle_dtor job)
     else
     let t4 = t3 @ [InitializeProcThreadAttributeList 0 1
                      (ret_InitializeProcThreadAttributeList_sizing os)] in
     if \<not> ret_InitializeProcThreadAttributeList_sizing os \<and>
        err_InitializeProcThreadAttributeList_sizing os \<noteq> ERROR_INSUFFICIENT_BUFFER
     then Inl (Returns 1, t4 @ [Stderr ''InitializeProcThreadAttributeList for sizing failed'']
                  @ UniqueHandle_dtor job)
     else
     case operator_new (ret_new os) of
       None \<Rightarrow> Inl (Throws_bad_alloc, t4 @ [Bad_alloc (unat (attrListSize os))])
     | Some attrList \<Rightarrow>
     let t5 = t4 @ [Allocate (unat (attrListSize os)) attrList] in
     if attrList = 0
     then Inl (Returns 1, t5 @ [StderrNum ''Could not allocate proc thread attribute list of size ''
                       (unat (attrListSize os))]
                  @ ProcThreadAttributeListPtr_dtor attrList @ UniqueHandle_dtor job)
     else
     let t6 = t5 @ [InitializeProcThreadAttributeList attrList 1
                      (ret_InitializeProcThreadAttributeList os)] in
     if \<not> ret_InitializeProcThreadAttributeList os
     then Inl (Returns 1, t6 @ [Stderr ''InitializeProcThreadAttributeList failed'']
                  @ ProcThreadAttributeListPtr_dtor attrList @ UniqueHandle_dtor job)
     else
     let inheritableHandleWhitelist =
           [STD_INPUT_HANDLE os, STD_OUTPUT_HANDLE os, STD_ERROR_HANDLE os];
         t7 = t6 @ [UpdateProcThreadAttribute attrList inheritableHandleWhitelist
                      (ret_UpdateProcThreadAttribute os)] in
     if \<not> ret_UpdateProcThreadAttribute os
     then Inl (Returns 1, t7 @ [Stderr ''UpdateProcThreadAttribute failed'']
                  @ ProcThreadAttributeListPtr_dtor attrList @ UniqueHandle_dtor job)
     else Inr (job, attrList, t7)))"

section \<open>Creating and supervising the child (lines 137-192, 370-424)\<close>

text \<open>
  Again common to the two variants, which differ in the application name passed. The
  destructors of \<^verbatim>\<open>childMainThread\<close> and \<^verbatim>\<open>childProcess\<close> run at each return after
  the process was created; those of the outer locals are added by \<^verbatim>\<open>wmain\<close> below.
\<close>

definition creation_flags :: dword where
  "creation_flags = CREATE_SUSPENDED OR CREATE_UNICODE_ENVIRONMENT OR EXTENDED_STARTUPINFO_PRESENT"

definition launch ::
  "'a::len word os \<Rightarrow> wstring \<Rightarrow> wstring \<Rightarrow> 'a word \<Rightarrow> 'a word \<Rightarrow> dword \<times> 'a word event list" where
  "launch os appName cmdLine job attrList =
    (case ret_CreateProcess os appName cmdLine of
       Inl err \<Rightarrow>
         (1, [CreateProcess appName cmdLine True creation_flags attrList None,
              StderrNum ''CreateProcess failed with error code '' (unat err)])
     | Inr (hProcess, hThread) \<Rightarrow>
     let t1 = [CreateProcess appName cmdLine True creation_flags attrList
                 (Some (hProcess, hThread))];
         dtors = UniqueHandle_dtor hThread @ UniqueHandle_dtor hProcess;
         t2 = t1 @ [AssignProcessToJobObject job hProcess (ret_AssignProcessToJobObject os)] in
     if \<not> ret_AssignProcessToJobObject os
     then (1, t2 @ [StderrNum ''AssignProcessToJobObject failed with error code ''
                      (unat (err_AssignProcessToJobObject os)),
                    TerminateProcess hProcess 1] @ dtors)
     else
     let t3 = t2 @ [ResumeThread hThread (ret_ResumeThread os)] in
     if ret_ResumeThread os = - 1
     then (1, t3 @ [StderrNum ''ResumeThread failed with error code ''
                      (unat (err_ResumeThread os)),
                    TerminateProcess hProcess 1] @ dtors)
     else
     let t4 = t3 @ [WaitForSingleObject hProcess (ret_WaitForSingleObject os)] in
     if ret_WaitForSingleObject os \<noteq> WAIT_OBJECT_0
     then (0, t4 @ [StderrNum ''WaitForSingleObject failed with error code ''
                      (unat (err_WaitForSingleObject os))] @ dtors)
     else
     let t5 = t4 @ [GetExitCodeProcess hProcess (ret_GetExitCodeProcess os)] in
     case ret_GetExitCodeProcess os of
       None \<Rightarrow>
         (0, t5 @ [StderrNum ''GetExitCodeProcess failed with error code ''
                     (unat (err_GetExitCodeProcess os))] @ dtors)
     | Some exitCode \<Rightarrow> (exitCode, t5 @ dtors))"

section \<open>\<^verbatim>\<open>wmain\<close>\<close>

text \<open>The first variant (lines 50-193): \<^verbatim>\<open>argv[1]\<close> is the executable.\<close>

definition wmain_direct :: "'a::len word os \<Rightarrow> wstring list \<Rightarrow> exit \<times> 'a word event list" where
  "wmain_direct os argv =
    (if int (length argv) < 2 then (Returns 1, [Stderr ''At least one argument required.''])
     else
     case acquire os of
       Inl (r, t) \<Rightarrow> (r, t)
     | Inr (job, attrList, t) \<Rightarrow>
     let cmdLine = cmdLine_direct argv;
         (code, t') = launch os (argv ! 1) cmdLine job attrList
     in (Returns code,
         t @ t' @ ProcThreadAttributeListPtr_dtor attrList @ UniqueHandle_dtor job))"

text \<open>
  The second variant (lines 250-425): \<^verbatim>\<open>argv[1]\<close> is looked up with \<^verbatim>\<open>SearchPath\<close>
  and the extension \<^verbatim>\<open>.exe\<close>. The \<^verbatim>\<open>DEBUG\<close> output of lines 278-280 is not part of
  the model.
\<close>

definition exePathBufLen :: dword where
  "exePathBufLen = 32767"

definition wmain_search :: "'a::len word os \<Rightarrow> wstring list \<Rightarrow> exit \<times> 'a word event list" where
  "wmain_search os argv =
    (if int (length argv) < 2 then (Returns 1, [Stderr ''At least one argument required.''])
     else
     case operator_new (ret_make_unique os) of
       None \<Rightarrow> (Throws_bad_alloc, [Bad_alloc (unat exePathBufLen)])
     | Some exePathBuf \<Rightarrow>
     let t1 = [Allocate (unat exePathBufLen) exePathBuf] in
     if exePathBuf = 0 then (Returns 1, t1 @ [Stderr ''Failed to allocate exePathBuf.''])
     else
     let (pathLen, exePath) = ret_SearchPath os (argv ! 1) (L ''.exe'') exePathBufLen;
         t2 = t1 @ [SearchPath (argv ! 1) (L ''.exe'') exePathBufLen pathLen] in
     if pathLen = 0
     then (Returns 1, t2 @ [StderrNum ''SearchPath failed with error code ''
                              (unat (err_SearchPath os))] @ array_dtor exePathBuf)
     else
     if pathLen \<ge> exePathBufLen
     then (Returns 1, t2 @ [Stderr ''SearchPath failed: path too long.'']
                         @ array_dtor exePathBuf)
     else
     case acquire os of
       Inl (r, t) \<Rightarrow> (r, t2 @ t @ at_return r (array_dtor exePathBuf))
     | Inr (job, attrList, t) \<Rightarrow>
     let cmdLine = cmdLine_search exePath argv in
     if length cmdLine > unat exePathBufLen
     then (Returns 1, t2 @ t @ [Stderr ''Command line is too long for CreateProcess'']
                @ ProcThreadAttributeListPtr_dtor attrList @ UniqueHandle_dtor job
                @ array_dtor exePathBuf)
     else
     let (code, t') = launch os exePath cmdLine job attrList
     in (Returns code, t2 @ t @ t' @ ProcThreadAttributeListPtr_dtor attrList
               @ UniqueHandle_dtor job @ array_dtor exePathBuf))"

text \<open>The two variants as one program with a resolution mode.\<close>

datatype mode = Direct | Search

definition wmain :: "mode \<Rightarrow> 'a::len word os \<Rightarrow> wstring list \<Rightarrow> exit \<times> 'a word event list" where
  "wmain m os argv = (case m of Direct \<Rightarrow> wmain_direct os argv | Search \<Rightarrow> wmain_search os argv)"

section \<open>The quoting rule in the words of the specification\<close>

text \<open>
  Every argument is wrapped in double quotes as it is, the arguments are separated by
  single spaces, and no space follows the last one.
\<close>

definition quoted :: "wstring \<Rightarrow> wstring" where
  "quoted a = [DQUOTE] @ a @ [DQUOTE]"

fun spec_command_line :: "wstring list \<Rightarrow> wstring" where
  "spec_command_line [] = []"
| "spec_command_line [a] = quoted a"
| "spec_command_line (a # b # rest) = quoted a @ [SPACE] @ spec_command_line (b # rest)"

section \<open>Kinds of calls\<close>

text \<open>The calls that act on the child process or its thread.\<close>

definition is_child_event :: "'p event \<Rightarrow> bool" where
  "is_child_event e =
     (case e of
        CreateProcess _ _ _ _ _ _ \<Rightarrow> True
      | AssignProcessToJobObject _ _ _ \<Rightarrow> True
      | TerminateProcess _ _ \<Rightarrow> True
      | ResumeThread _ _ \<Rightarrow> True
      | WaitForSingleObject _ _ \<Rightarrow> True
      | GetExitCodeProcess _ _ \<Rightarrow> True
      | _ \<Rightarrow> False)"

section \<open>Sample runs\<close>

text \<open>
  A 64-bit machine on which every call succeeds: the process may run on CPUs 1 and
  2, the search finds \<^verbatim>\<open>C:\bin\tool.exe\<close>, and the child exits with 42.
\<close>

definition tool_exe :: wstring where
  "tool_exe = L ''C:'' @ [0x5C] @ L ''bin'' @ [0x5C] @ L ''tool.exe''"

definition os_ok :: "64 word os" where
  "os_ok = \<lparr>
     ret_make_unique = 0x1000,
     ret_SearchPath = (\<lambda>name ext len. (15, tool_exe)),
     err_SearchPath = 0,
     ret_CreateJobObject = 0x64,
     ret_GetProcessAffinityMask = Some 6,
     shl_out_of_range = (\<lambda>a n. 0),
     ret_SetInformationJobObject = True,
     ret_InitializeProcThreadAttributeList_sizing = False,
     err_InitializeProcThreadAttributeList_sizing = 122,
     attrListSize = 48,
     ret_new = 0x2000,
     ret_InitializeProcThreadAttributeList = True,
     STD_INPUT_HANDLE = 0x10,
     STD_OUTPUT_HANDLE = 0x14,
     STD_ERROR_HANDLE = 0x18,
     ret_UpdateProcThreadAttribute = True,
     ret_CreateProcess = (\<lambda>app cmd. Inr (0x70, 0x74)),
     ret_AssignProcessToJobObject = True,
     err_AssignProcessToJobObject = 0,
     ret_ResumeThread = 1,
     err_ResumeThread = 0,
     ret_WaitForSingleObject = 0,
     err_WaitForSingleObject = 0,
     ret_GetExitCodeProcess = Some 42,
     err_GetExitCodeProcess = 0 \<rparr>"

definition argv_ok :: "wstring list" where
  "argv_ok = [L ''rununiproc'', L ''x.exe'', L ''a b'', L ''c'']"

text \<open>The same machine with an empty affinity mask.\<close>

definition os_zero_mask :: "64 word os" where
  "os_zero_mask = os_ok \<lparr> ret_GetProcessAffinityMask := Some 0 \<rparr>"

text \<open>The same machine with the process allowed on CPU 31 only.\<close>

definition os_cpu31 :: "64 word os" where
  "os_cpu31 = os_ok \<lparr> ret_GetProcessAffinityMask := Some 0x80000000 \<rparr>"

text \<open>The binding to the job fails (error 5), or resuming the thread does.\<close>

definition os_assign_fails :: "64 word os" where
  "os_assign_fails =
     os_ok \<lparr> ret_AssignProcessToJobObject := False, err_AssignProcessToJobObject := 5 \<rparr>"

definition os_resume_fails :: "64 word os" where
  "os_resume_fails = os_ok \<lparr> ret_ResumeThread := - 1, err_ResumeThread := 5 \<rparr>"

text \<open>The wait fails, or the exit code cannot be read, or the process is not created.\<close>

definition os_wait_fails :: "64 word os" where
  "os_wait_fails = os_ok \<lparr> ret_WaitForSingleObject := 0xFFFFFFFF, err_WaitForSingleObject := 6 \<rparr>"

definition os_exit_code_fails :: "64 word os" where
  "os_exit_code_fails = os_ok \<lparr> ret_GetExitCodeProcess := None, err_GetExitCodeProcess := 6 \<rparr>"

definition os_create_fails :: "64 word os" where
  "os_create_fails = os_ok \<lparr> ret_CreateProcess := (\<lambda>app cmd. Inl 2) \<rparr>"

text \<open>There is no memory for the attribute list, or none for the path buffer.\<close>

definition os_new_fails :: "64 word os" where
  "os_new_fails = os_ok \<lparr> ret_new := 0 \<rparr>"

definition os_make_unique_fails :: "64 word os" where
  "os_make_unique_fails = os_ok \<lparr> ret_make_unique := 0 \<rparr>"

text \<open>The search reports a path that does not fit the buffer.\<close>

definition os_long_path :: "64 word os" where
  "os_long_path = os_ok \<lparr> ret_SearchPath := (\<lambda>name ext len. (40000, [])) \<rparr>"

text \<open>
  16000 arguments of one character each. The launcher's own command line,
  \<^verbatim>\<open>rununiproc x.exe a a ...\<close>, has 32016 characters; the command line it assembles
  for the child has four characters for each of them.
\<close>

definition argv_long :: "wstring list" where
  "argv_long = L ''rununiproc'' # L ''x.exe'' # replicate 16000 (L ''a'')"

text \<open>
  The same machine, whose \<^verbatim>\<open>CreateProcess\<close> refuses a command line that does not fit
  32767 characters with its terminating null.
\<close>

definition os_limit :: "64 word os" where
  "os_limit =
     os_ok \<lparr> ret_CreateProcess := (\<lambda>app cmd. if length cmd < 32767 then Inr (0x70, 0x74) else Inl 87) \<rparr>"

text \<open>
  The calls of a run on these machines: up to the attribute list, the creation of the
  child, and the destructors at the end.
\<close>

definition acquired_ok :: "64 word event list" where
  "acquired_ok =
     [CreateJobObject 0x64, GetProcessAffinityMask (Some 6),
      SetInformationJobObject 0x64 JOB_OBJECT_LIMIT_AFFINITY 2 True,
      InitializeProcThreadAttributeList 0 1 False, Allocate 48 0x2000,
      InitializeProcThreadAttributeList 0x2000 1 True,
      UpdateProcThreadAttribute 0x2000 [0x10, 0x14, 0x18] True]"

definition created_ok :: "wstring \<Rightarrow> wstring \<Rightarrow> 64 word event" where
  "created_ok app cmd = CreateProcess app cmd True creation_flags 0x2000 (Some (0x70, 0x74))"

definition released_ok :: "64 word event list" where
  "released_ok =
     [CloseHandle 0x74, CloseHandle 0x70, DeleteProcThreadAttributeList 0x2000,
      Delete 0x2000, CloseHandle 0x64]"

text \<open>
  The command lines expected for \<open>argv_ok\<close>: \<^verbatim>\<open>x.exe\<close> (or the path found), \<^verbatim>\<open>a b\<close> and
  \<^verbatim>\<open>c\<close>, each between double quotes, with one space between them.
\<close>

definition cmdLine_direct_ok :: wstring where
  "cmdLine_direct_ok =
     [DQUOTE] @ L ''x.exe'' @ [DQUOTE, SPACE, DQUOTE] @ L ''a b'' @ [DQUOTE, SPACE, DQUOTE]
       @ L ''c'' @ [DQUOTE]"

definition cmdLine_search_ok :: wstring where
  "cmdLine_search_ok =
     [DQUOTE] @ tool_exe @ [DQUOTE, SPACE, DQUOTE] @ L ''a b'' @ [DQUOTE, SPACE, DQUOTE]
       @ L ''c'' @ [DQUOTE]"

definition searched_ok :: "64 word event list" where
  "searched_ok = [Allocate 32767 0x1000, SearchPath (L ''x.exe'') (L ''.exe'') 32767 15]"

section \<open>Auxiliary facts\<close>

lemmas dtor_defs = UniqueHandle_dtor_def ProcThreadAttributeListPtr_dtor_def array_dtor_def
  unique_ptr_dtor_def HandleDeleter_def ProcThreadAttrListDeleter_def

lemma in_UniqueHandle_dtor:
  "e \<in> set (UniqueHandle_dtor h) \<longleftrightarrow> h \<noteq> 0 \<and> e = CloseHandle h"
  by (auto simp: dtor_defs)

lemma in_ProcThreadAttributeListPtr_dtor:
  "e \<in> set (ProcThreadAttributeListPtr_dtor p) \<longleftrightarrow>
     p \<noteq> 0 \<and> (e = DeleteProcThreadAttributeList p \<or> e = Delete p)"
  by (auto simp: dtor_defs)

lemma in_array_dtor: "e \<in> set (array_dtor p) \<longleftrightarrow> p \<noteq> 0 \<and> e = Delete p"
  by (auto simp: dtor_defs)

lemmas in_dtors = in_UniqueHandle_dtor in_ProcThreadAttributeListPtr_dtor in_array_dtor

lemma split_middle:
  assumes eq: "pre @ mid @ post = xs @ e # ys"
    and pre: "e \<notin> set pre" and post: "e \<notin> set post"
  shows "\<exists>xs' ys'. mid = xs' @ e # ys' \<and> xs = pre @ xs' \<and> ys = ys' @ post"
proof -
  from eq obtain us where
    "(pre = xs @ us \<and> us @ mid @ post = e # ys) \<or> (pre @ us = xs \<and> mid @ post = us @ e # ys)"
    by (auto simp: append_eq_append_conv2)
  then have "\<exists>us. pre @ us = xs \<and> mid @ post = us @ e # ys"
  proof
    assume a: "pre = xs @ us \<and> us @ mid @ post = e # ys"
    show ?thesis
    proof (cases us)
      case Nil with a show ?thesis by auto
    next
      case (Cons u us') with a pre show ?thesis by auto
    qed
  qed auto
  then obtain us where xs: "pre @ us = xs" and m: "mid @ post = us @ e # ys" by blast
  from m obtain vs where
    "(mid = us @ vs \<and> vs @ post = e # ys) \<or> (mid @ vs = us \<and> post = vs @ e # ys)"
    by (auto simp: append_eq_append_conv2)
  then show ?thesis
  proof
    assume a: "mid = us @ vs \<and> vs @ post = e # ys"
    show ?thesis
    proof (cases vs)
      case Nil with a post show ?thesis by auto
    next
      case (Cons v vs') with a xs show ?thesis by auto
    qed
  next
    assume "mid @ vs = us \<and> post = vs @ e # ys"
    with post show ?thesis by auto
  qed
qed

lemma launch_resume_order:
  assumes "launch os app cmd job al = (code, t)" and "t = xs @ ResumeThread th r # ys"
  shows "\<exists>p. CreateProcess app cmd True creation_flags al (Some (p, th)) \<in> set xs
           \<and> AssignProcessToJobObject job p True \<in> set xs"
  using assms
  by (auto simp: launch_def Let_def dtor_defs Cons_eq_append_conv
           split: if_splits option.splits sum.splits prod.splits)

lemma launch_assign_failure:
  assumes "launch os app cmd job al = (code, t)"
    and "t = xs @ AssignProcessToJobObject j p False # ys"
  shows "code = 1 \<and> TerminateProcess p 1 \<in> set ys \<and> (\<forall>th r. ResumeThread th r \<notin> set t)
         \<and> (\<exists>th. CreateProcess app cmd True creation_flags al (Some (p, th)) \<in> set xs)"
  using assms
  by (auto simp: launch_def Let_def dtor_defs Cons_eq_append_conv
           split: if_splits option.splits sum.splits prod.splits)

lemma launch_resume_failure:
  assumes "launch os app cmd job al = (code, t)"
    and "t = xs @ ResumeThread th (- 1) # ys"
  shows "code = 1 \<and> (\<exists>p. CreateProcess app cmd True creation_flags al (Some (p, th)) \<in> set xs
           \<and> TerminateProcess p 1 \<in> set ys)"
  using assms
  by (auto simp: launch_def Let_def dtor_defs Cons_eq_append_conv
           split: if_splits option.splits sum.splits prod.splits)

lemma bit_scan_None:
  "bit_scan n i (w::'a::len word) = None \<longleftrightarrow> (\<forall>j. i \<le> j \<and> j < i + n \<longrightarrow> \<not> bit w j)"
proof (induction n arbitrary: i)
  case 0
  then show ?case by auto
next
  case (Suc n)
  have "(\<forall>j. i \<le> j \<and> j < i + Suc n \<longrightarrow> \<not> bit w j) \<longleftrightarrow>
        (\<not> bit w i \<and> (\<forall>j. Suc i \<le> j \<and> j < Suc i + n \<longrightarrow> \<not> bit w j))"
    by (metis Suc_leD Suc_le_eq add_Suc add_Suc_right le_neq_implies_less less_add_Suc1 order_refl)
  then show ?case by (simp add: Suc)
qed

lemma bit_scan_Some:
  "bit_scan n i (w::'a::len word) = Some k \<Longrightarrow>
     bit w k \<and> i \<le> k \<and> k < i + n \<and> (\<forall>j. i \<le> j \<and> j < k \<longrightarrow> \<not> bit w j)"
proof (induction n arbitrary: i)
  case 0
  then show ?case by simp
next
  case (Suc n)
  show ?case
  proof (cases "bit w i")
    case True
    with Suc.prems show ?thesis by auto
  next
    case False
    with Suc.prems have "bit_scan n (Suc i) w = Some k" by simp
    from Suc.IH [OF this] have k: "bit w k" "Suc i \<le> k" "k < Suc i + n"
      and least: "\<And>j. Suc i \<le> j \<Longrightarrow> j < k \<Longrightarrow> \<not> bit w j" by auto
    have "\<not> bit w j" if "i \<le> j" "j < k" for j
    proof (cases "j = i")
      case True
      with False show ?thesis by simp
    next
      case False
      with that least show ?thesis by simp
    qed
    with k show ?thesis by simp
  qed
qed

lemma CPU_BITSCANFORWARD_zero: "CPU_BITSCANFORWARD (0::'a::len word) = None"
  by (simp add: CPU_BITSCANFORWARD_def bit_scan_None)

lemma CPU_BITSCANFORWARD_6: "CPU_BITSCANFORWARD (6 :: 64 word) = Some 1"
  by (simp add: CPU_BITSCANFORWARD_def eval_nat_numeral)

lemma CPU_BITSCANFORWARD_cpu31: "CPU_BITSCANFORWARD (0x80000000 :: 64 word) = Some 31"
  by (simp add: CPU_BITSCANFORWARD_def eval_nat_numeral)

lemma Affinity_one_bit_below_31:
  assumes "unat index < 31" "unat index < LENGTH('a::len)"
  shows "bit (Affinity_of_index os index :: 'a word) n \<longleftrightarrow> n = unat index"
  using assms
  by (auto simp: Affinity_of_index_def shl_int_def bit_signed_iff bit_exp_iff min_def
      dest: bit_imp_le_length)

lemma Affinity_one_bit_32:
  assumes "unat index < 32"
  shows "bit (Affinity_of_index os index :: 32 word) n \<longleftrightarrow> n = unat index"
  using assms
  by (auto simp: Affinity_of_index_def shl_int_def bit_exp_iff
      dest: bit_imp_le_length)

lemma acquire_Inl_no_child:
  "acquire os = Inl (r, t) \<Longrightarrow> e \<in> set t \<Longrightarrow> \<not> is_child_event e"
  by (auto simp: acquire_def Let_def in_dtors is_child_event_def operator_new_def
           split: if_splits option.splits)

lemma acquire_Inl_exit: "acquire os = Inl (r, t) \<Longrightarrow> r = Returns 1 \<or> r = Throws_bad_alloc"
  by (auto simp: acquire_def Let_def operator_new_def split: if_splits option.splits)

lemma acquire_Inr:
  assumes "acquire os = Inr (job, al, t)"
  shows "(\<forall>e\<in>set t. \<not> is_child_event e) \<and> job \<noteq> 0 \<and> al \<noteq> 0
         \<and> (\<exists>aff. SetInformationJobObject job JOB_OBJECT_LIMIT_AFFINITY aff True \<in> set t)
         \<and> GetProcessAffinityMask (Some 0) \<notin> set t"
  using assms
  by (auto simp: acquire_def Let_def in_dtors is_child_event_def CPU_BITSCANFORWARD_zero
           operator_new_def split: if_splits option.splits)

lemma acquire_zero_mask:
  assumes "acquire os = Inl (r, t)" and "GetProcessAffinityMask (Some 0) \<in> set t"
  shows "r = Returns 1 \<and> ret_CreateJobObject os \<noteq> 0 \<and>
         t = [CreateJobObject (ret_CreateJobObject os), GetProcessAffinityMask (Some 0),
              Stderr ''CPU affinity mask is zero?!'', CloseHandle (ret_CreateJobObject os)]"
  using assms
  by (auto simp: acquire_def Let_def dtor_defs CPU_BITSCANFORWARD_zero operator_new_def
           split: if_splits option.splits)

lemma launch_exit:
  assumes "launch os app cmd job al = (code, t)"
  shows "(\<forall>p c. GetExitCodeProcess p (Some c) \<in> set t \<longrightarrow> code = c)
       \<and> ((\<forall>app cmd inh fl al p th. CreateProcess app cmd inh fl al (Some (p, th)) \<notin> set t)
            \<longrightarrow> code = 1)
       \<and> (\<forall>p w. WaitForSingleObject p w \<in> set t \<and> w \<noteq> WAIT_OBJECT_0 \<longrightarrow>
            code = 0 \<and> (\<exists>th. CreateProcess app cmd True creation_flags al (Some (p, th)) \<in> set t))
       \<and> (\<forall>p. GetExitCodeProcess p None \<in> set t \<longrightarrow>
            code = 0 \<and> (\<exists>th. CreateProcess app cmd True creation_flags al (Some (p, th)) \<in> set t))"
  using assms
  by (auto simp: launch_def Let_def in_dtors split: if_splits option.splits sum.splits prod.splits)

lemma launch_create:
  assumes "launch os app cmd job al = (code, t)"
    and "CreateProcess app' cmd' inh fl al' r \<in> set t"
  shows "app' = app \<and> cmd' = cmd \<and> inh \<and> fl = creation_flags \<and> al' = al"
  using assms
  by (auto simp: launch_def Let_def in_dtors split: if_splits option.splits sum.splits prod.splits)

lemma launch_events:
  assumes "launch os app cmd job al = (code, t)" and "e \<in> set t"
  shows "is_child_event e \<or> (\<exists>s n. e = StderrNum s n) \<or> (\<exists>h. e = CloseHandle h)"
  using assms
  by (auto simp: launch_def Let_def in_dtors is_child_event_def
           split: if_splits option.splits sum.splits prod.splits)

lemma wmain_direct_cases:
  assumes "wmain_direct os argv = (r, tr)"
  shows "((r = Returns 1 \<or> r = Throws_bad_alloc) \<and> (\<forall>e\<in>set tr. \<not> is_child_event e)) \<or>
         (\<exists>pre post job al t code.
            r = Returns code \<and>
            tr = pre @ t @ post \<and> acquire os = Inr (job, al, pre) \<and>
            launch os (argv ! 1) (cmdLine_direct argv) job al = (code, t) \<and>
            (\<forall>e\<in>set post. \<not> is_child_event e))"
proof (cases "acquire os")
  case (Inl x)
  obtain r' t where x: "x = (r', t)" by (cases x)
  from assms acquire_Inl_no_child [OF Inl [unfolded x]] acquire_Inl_exit [OF Inl [unfolded x]]
  show ?thesis
    by (auto simp: wmain_direct_def Inl x is_child_event_def split: if_splits)
next
  case (Inr x)
  obtain job al t where x: "x = (job, al, t)" by (cases x)
  obtain c t' where l: "launch os (argv ! 1) (cmdLine_direct argv) job al = (c, t')"
    by (cases "launch os (argv ! 1) (cmdLine_direct argv) job al")
  show ?thesis
  proof (cases "int (length argv) < 2")
    case True
    with assms show ?thesis by (auto simp: wmain_direct_def is_child_event_def)
  next
    case False
    with assms Inr x l have "r = Returns c"
      and "tr = t @ t' @ (ProcThreadAttributeListPtr_dtor al @ UniqueHandle_dtor job)"
      by (auto simp: wmain_direct_def)
    moreover have "\<forall>e\<in>set (ProcThreadAttributeListPtr_dtor al @ UniqueHandle_dtor job). \<not> is_child_event e"
      by (auto simp: in_dtors is_child_event_def)
    ultimately show ?thesis using Inr x l by blast
  qed
qed

lemma in_at_return: "e \<in> set (at_return r d) \<Longrightarrow> e \<in> set d"
  by (cases r) (simp_all add: at_return_def)

lemma wmain_search_cases:
  assumes "wmain_search os argv = (r, tr)"
  shows "((r = Returns 1 \<or> r = Throws_bad_alloc) \<and> (\<forall>e\<in>set tr. \<not> is_child_event e)) \<or>
         (\<exists>pre post job al t len app code.
            r = Returns code \<and>
            tr = ([Allocate (unat exePathBufLen) (ret_make_unique os),
                   SearchPath (argv ! 1) (L ''.exe'') exePathBufLen len] @ pre) @ t @ post \<and>
            acquire os = Inr (job, al, pre) \<and>
            ret_SearchPath os (argv ! 1) (L ''.exe'') exePathBufLen = (len, app) \<and>
            len \<noteq> 0 \<and> len < exePathBufLen \<and>
            length (cmdLine_search app argv) \<le> unat exePathBufLen \<and>
            launch os app (cmdLine_search app argv) job al = (code, t) \<and>
            (\<forall>e\<in>set post. \<not> is_child_event e))"
proof -
  obtain len app where sp: "ret_SearchPath os (argv ! 1) (L ''.exe'') exePathBufLen = (len, app)"
    by (cases "ret_SearchPath os (argv ! 1) (L ''.exe'') exePathBufLen")
  show ?thesis
  proof (cases "int (length argv) < 2 \<or> ret_make_unique os = 0 \<or> len = 0 \<or> exePathBufLen \<le> len")
    case True
    with assms sp show ?thesis
      by (auto simp: wmain_search_def Let_def in_dtors is_child_event_def operator_new_def
               split: if_splits)
  next
    case early: False
    then have new: "operator_new (ret_make_unique os) = Some (ret_make_unique os)"
      by (simp add: operator_new_def)
    show ?thesis
    proof (cases "acquire os")
      case (Inl x)
      obtain r' t where x: "x = (r', t)" by (cases x)
      from assms sp early new acquire_Inl_no_child [OF Inl [unfolded x]]
        acquire_Inl_exit [OF Inl [unfolded x]]
      show ?thesis
        by (auto simp: wmain_search_def Let_def Inl x in_dtors is_child_event_def
                 dest!: in_at_return)
    next
      case (Inr x)
      obtain job al t where x: "x = (job, al, t)" by (cases x)
      note acq = acquire_Inr [OF Inr [unfolded x]]
      show ?thesis
      proof (cases "length (cmdLine_search app argv) > unat exePathBufLen")
        case True
        with assms sp early new Inr x acq show ?thesis
          by (auto simp: wmain_search_def Let_def in_dtors is_child_event_def)
      next
        case False
        obtain c t' where l: "launch os app (cmdLine_search app argv) job al = (c, t')"
          by (cases "launch os app (cmdLine_search app argv) job al")
        let ?post = "ProcThreadAttributeListPtr_dtor al @ UniqueHandle_dtor job
                       @ array_dtor (ret_make_unique os)"
        from assms sp early new Inr x l False have "r = Returns c"
          and "tr = ([Allocate (unat exePathBufLen) (ret_make_unique os),
                      SearchPath (argv ! 1) (L ''.exe'') exePathBufLen len] @ t) @ t' @ ?post"
          by (auto simp: wmain_search_def Let_def)
        moreover have "\<forall>e\<in>set ?post. \<not> is_child_event e"
          by (auto simp: in_dtors is_child_event_def)
        ultimately show ?thesis using Inr x l sp early False
          by (intro disjI2 exI [of _ t] exI [of _ ?post] exI [of _ job] exI [of _ al]
                exI [of _ t'] exI [of _ len] exI [of _ app] exI [of _ c]) auto
      qed
    qed
  qed
qed

lemma wmain_cases:
  assumes "wmain m os argv = (r, tr)"
  shows "((r = Returns 1 \<or> r = Throws_bad_alloc) \<and> (\<forall>e\<in>set tr. \<not> is_child_event e)) \<or>
         (\<exists>pre post app cmd job al aff t code.
            r = Returns code \<and>
            tr = pre @ t @ post \<and> launch os app cmd job al = (code, t) \<and>
            (\<forall>e\<in>set pre. \<not> is_child_event e) \<and> (\<forall>e\<in>set post. \<not> is_child_event e) \<and>
            SetInformationJobObject job JOB_OBJECT_LIMIT_AFFINITY aff True \<in> set pre)"
proof (cases m)
  case Direct
  with assms have "wmain_direct os argv = (r, tr)" by (simp add: wmain_def)
  from wmain_direct_cases [OF this] show ?thesis
  proof
    assume "\<exists>pre post job al t code.
            r = Returns code \<and>
            tr = pre @ t @ post \<and> acquire os = Inr (job, al, pre) \<and>
            launch os (argv ! 1) (cmdLine_direct argv) job al = (code, t) \<and>
            (\<forall>e\<in>set post. \<not> is_child_event e)"
    then obtain pre post job al t code where r: "r = Returns code" and tr: "tr = pre @ t @ post"
      and acq: "acquire os = Inr (job, al, pre)"
      and l: "launch os (argv ! 1) (cmdLine_direct argv) job al = (code, t)"
      and post: "\<forall>e\<in>set post. \<not> is_child_event e" by blast
    from acquire_Inr [OF acq] obtain aff where "\<forall>e\<in>set pre. \<not> is_child_event e"
      and "SetInformationJobObject job JOB_OBJECT_LIMIT_AFFINITY aff True \<in> set pre" by blast
    with r tr l post show ?thesis by blast
  qed simp
next
  case Search
  with assms have "wmain_search os argv = (r, tr)" by (simp add: wmain_def)
  from wmain_search_cases [OF this] show ?thesis
  proof
    assume "\<exists>pre post job al t len app code.
            r = Returns code \<and>
            tr = ([Allocate (unat exePathBufLen) (ret_make_unique os),
                   SearchPath (argv ! 1) (L ''.exe'') exePathBufLen len] @ pre) @ t @ post \<and>
            acquire os = Inr (job, al, pre) \<and>
            ret_SearchPath os (argv ! 1) (L ''.exe'') exePathBufLen = (len, app) \<and>
            len \<noteq> 0 \<and> len < exePathBufLen \<and>
            length (cmdLine_search app argv) \<le> unat exePathBufLen \<and>
            launch os app (cmdLine_search app argv) job al = (code, t) \<and>
            (\<forall>e\<in>set post. \<not> is_child_event e)"
    then obtain pre post job al t len app code where r: "r = Returns code" and
      tr: "tr = ([Allocate (unat exePathBufLen) (ret_make_unique os),
                   SearchPath (argv ! 1) (L ''.exe'') exePathBufLen len] @ pre) @ t @ post"
      and acq: "acquire os = Inr (job, al, pre)"
      and l: "launch os app (cmdLine_search app argv) job al = (code, t)"
      and post: "\<forall>e\<in>set post. \<not> is_child_event e" by blast
    from acquire_Inr [OF acq] obtain aff where "\<forall>e\<in>set pre. \<not> is_child_event e"
      and "SetInformationJobObject job JOB_OBJECT_LIMIT_AFFINITY aff True \<in> set pre" by blast
    then have "\<forall>e\<in>set ([Allocate (unat exePathBufLen) (ret_make_unique os),
                   SearchPath (argv ! 1) (L ''.exe'') exePathBufLen len] @ pre). \<not> is_child_event e"
      and "SetInformationJobObject job JOB_OBJECT_LIMIT_AFFINITY aff True \<in>
             set ([Allocate (unat exePathBufLen) (ret_make_unique os),
                   SearchPath (argv ! 1) (L ''.exe'') exePathBufLen len] @ pre)"
      by (auto simp: is_child_event_def)
    with r tr l post show ?thesis by blast
  qed simp
qed

lemmas os_samples = os_ok_def os_zero_mask_def os_cpu31_def os_assign_fails_def
  os_new_fails_def os_make_unique_fails_def
  os_resume_fails_def os_wait_fails_def os_exit_code_fails_def os_create_fails_def
  os_long_path_def os_limit_def

lemma argv_ok_facts: "length argv_ok = 4" "argv_ok ! Suc 0 = L ''x.exe''"
  by (simp_all add: argv_ok_def)

lemma acquire_samples:
  "acquire os_ok = Inr (0x64, 0x2000, acquired_ok)"
  "acquire os_assign_fails = Inr (0x64, 0x2000, acquired_ok)"
  "acquire os_resume_fails = Inr (0x64, 0x2000, acquired_ok)"
  "acquire os_wait_fails = Inr (0x64, 0x2000, acquired_ok)"
  "acquire os_exit_code_fails = Inr (0x64, 0x2000, acquired_ok)"
  "acquire os_create_fails = Inr (0x64, 0x2000, acquired_ok)"
  "acquire os_limit = Inr (0x64, 0x2000, acquired_ok)"
  by (simp_all add: acquire_def os_samples Let_def CPU_BITSCANFORWARD_6 acquired_ok_def
      ERROR_INSUFFICIENT_BUFFER_def Affinity_of_index_def shl_int_def operator_new_def)

lemma launch_samples:
  "launch os_ok app cmd 0x64 0x2000 =
     (42, [created_ok app cmd, AssignProcessToJobObject 0x64 0x70 True, ResumeThread 0x74 1,
           WaitForSingleObject 0x70 0, GetExitCodeProcess 0x70 (Some 42),
           CloseHandle 0x74, CloseHandle 0x70])"
  "launch os_assign_fails app cmd 0x64 0x2000 =
     (1, [created_ok app cmd, AssignProcessToJobObject 0x64 0x70 False,
          StderrNum ''AssignProcessToJobObject failed with error code '' 5,
          TerminateProcess 0x70 1, CloseHandle 0x74, CloseHandle 0x70])"
  "launch os_resume_fails app cmd 0x64 0x2000 =
     (1, [created_ok app cmd, AssignProcessToJobObject 0x64 0x70 True, ResumeThread 0x74 (- 1),
          StderrNum ''ResumeThread failed with error code '' 5,
          TerminateProcess 0x70 1, CloseHandle 0x74, CloseHandle 0x70])"
  "launch os_wait_fails app cmd 0x64 0x2000 =
     (0, [created_ok app cmd, AssignProcessToJobObject 0x64 0x70 True, ResumeThread 0x74 1,
          WaitForSingleObject 0x70 0xFFFFFFFF,
          StderrNum ''WaitForSingleObject failed with error code '' 6,
          CloseHandle 0x74, CloseHandle 0x70])"
  "launch os_exit_code_fails app cmd 0x64 0x2000 =
     (0, [created_ok app cmd, AssignProcessToJobObject 0x64 0x70 True, ResumeThread 0x74 1,
          WaitForSingleObject 0x70 0, GetExitCodeProcess 0x70 None,
          StderrNum ''GetExitCodeProcess failed with error code '' 6,
          CloseHandle 0x74, CloseHandle 0x70])"
  "launch os_create_fails app cmd 0x64 0x2000 =
     (1, [CreateProcess app cmd True creation_flags 0x2000 None,
          StderrNum ''CreateProcess failed with error code '' 2])"
  by (simp_all add: launch_def os_samples Let_def created_ok_def dtor_defs WAIT_OBJECT_0_def)

lemma run_direct:
  assumes "acquire os = Inr (0x64, 0x2000, acquired_ok)"
    and "launch os (L ''x.exe'') (cmdLine_direct argv_ok) 0x64 0x2000 = (code, t)"
  shows "wmain Direct (os :: 64 word os) argv_ok =
           (Returns code,
            acquired_ok @ t @ [DeleteProcThreadAttributeList 0x2000, Delete 0x2000, CloseHandle 0x64])"
  using assms by (simp add: wmain_def wmain_direct_def argv_ok_facts dtor_defs)

lemmas runs_direct =
  run_direct [OF acquire_samples(1) launch_samples(1)]
  run_direct [OF acquire_samples(2) launch_samples(2)]
  run_direct [OF acquire_samples(3) launch_samples(3)]
  run_direct [OF acquire_samples(4) launch_samples(4)]
  run_direct [OF acquire_samples(5) launch_samples(5)]
  run_direct [OF acquire_samples(6) launch_samples(6)]

lemma quote_args_spec: "quote_args argv i oss = oss @ spec_command_line (drop i argv)"
proof (induction argv i oss rule: quote_args.induct)
  case (1 argv i oss)
  show ?case
  proof (cases "i < length argv")
    case False
    then show ?thesis by (simp add: quote_args.simps [of argv i])
  next
    case True
    note lt = this
    have d: "drop i argv = argv ! i # drop (Suc i) argv"
      using lt by (simp add: Cons_nth_drop_Suc)
    show ?thesis
    proof (cases "Suc i = length argv")
      case True
      then have "drop (Suc i) argv = []" by simp
      with True lt d 1 show ?thesis
        by (simp add: quote_args.simps [of argv i] quoted_def)
    next
      case False
      with lt have "Suc i < length argv" by simp
      then obtain b rest where dr: "drop (Suc i) argv = b # rest"
        by (cases "drop (Suc i) argv") auto
      from False lt have ne: "int i \<noteq> int (length argv) - 1" by auto
      from 1 [OF lt] lt ne d dr show ?thesis
        by (simp add: quote_args.simps [of argv i] quoted_def)
    qed
  qed
qed

lemma spec_command_line_Cons:
  "spec_command_line (a # args) =
     quoted a @ (if args = [] then [] else [SPACE] @ spec_command_line args)"
  by (cases args) simp_all

lemma spec_command_line_not_Nil: "args \<noteq> [] \<Longrightarrow> spec_command_line args \<noteq> []"
  by (induction args rule: spec_command_line.induct) (auto simp: quoted_def)

lemma last_spec_command_line: "args \<noteq> [] \<Longrightarrow> last (spec_command_line args) = DQUOTE"
  by (induction args rule: spec_command_line.induct)
    (auto simp: quoted_def spec_command_line_not_Nil)

lemma no_trailing_space: "spec_command_line args \<noteq> s @ [SPACE]"
proof (cases "args = []")
  case True
  then show ?thesis by simp
next
  case False
  from last_spec_command_line [OF this] show ?thesis
    by (auto simp: DQUOTE_def SPACE_def)
qed

lemma cmdLine_direct_spec: "cmdLine_direct argv = spec_command_line (drop 1 argv)"
  by (simp add: cmdLine_direct_def quote_args_spec)

lemma cmdLine_search_spec:
  "cmdLine_search exePath argv = spec_command_line (exePath # drop 2 argv)"
proof (cases "drop 2 argv = []")
  case True
  then show ?thesis
    by (simp add: cmdLine_search_def quote_args_spec quoted_def)
next
  case False
  then have "2 < int (length argv)" by auto
  with False show ?thesis
    by (simp add: cmdLine_search_def quote_args_spec quoted_def spec_command_line_Cons)
qed

lemma launch_no_mask_query:
  assumes "launch os app cmd job al = (code, t)" and "GetProcessAffinityMask x \<in> set t"
  shows False
  using launch_events [OF assms] by (auto simp: is_child_event_def)

lemma cmdLine_search_sample: "cmdLine_search tool_exe argv_ok = cmdLine_search_ok"
  by (simp add: cmdLine_search_spec argv_ok_def quoted_def cmdLine_search_ok_def)

lemma length_cmdLine_search_sample: "length (cmdLine_search tool_exe argv_ok) = 27"
  unfolding cmdLine_search_sample by (simp add: cmdLine_search_ok_def tool_exe_def L_def)

lemma run_search:
  assumes "acquire os = Inr (0x64, 0x2000, acquired_ok)"
    and "launch os tool_exe (cmdLine_search tool_exe argv_ok) 0x64 0x2000 = (code, t)"
    and "ret_make_unique os = 0x1000"
    and "ret_SearchPath os (L ''x.exe'') (L ''.exe'') exePathBufLen = (15, tool_exe)"
  shows "wmain Search (os :: 64 word os) argv_ok =
           (Returns code, searched_ok @ acquired_ok @ t @
                  [DeleteProcThreadAttributeList 0x2000, Delete 0x2000, CloseHandle 0x64,
                   Delete 0x1000])"
  using assms
  by (simp add: wmain_def wmain_search_def argv_ok_facts dtor_defs Let_def
      length_cmdLine_search_sample searched_ok_def exePathBufLen_def operator_new_def)

lemma os_ok_search:
  "ret_make_unique os_ok = 0x1000"
  "ret_SearchPath os_ok name ext len = (15, tool_exe)"
  by (simp_all add: os_ok_def)

lemmas run_search_ok =
  run_search [OF acquire_samples(1) launch_samples(1) os_ok_search]

lemma Affinity_bits_64:
  assumes "unat index < 32"
  shows "bit (Affinity_of_index os index :: 64 word) n \<longleftrightarrow>
           n < 64 \<and> (if n < 31 then n = unat index else unat index = 31)"
  using assms
  by (auto simp: Affinity_of_index_def shl_int_def bit_signed_iff bit_exp_iff min_def
      split: if_splits)

lemma Affinity_cpu31_bits:
  "bit (Affinity_of_index os 31 :: 64 word) n \<longleftrightarrow> 31 \<le> n \<and> n < 64"
  using Affinity_bits_64 [of 31 os n] by auto

lemma length_spec_command_line:
  "length (spec_command_line args) = sum_list (map (\<lambda>a. length a + 2) args) + (length args - 1)"
  by (induction args rule: spec_command_line.induct) (simp_all add: quoted_def)

lemma argv_long_facts:
  "length argv_long = 16002" "argv_long ! Suc 0 = L ''x.exe''"
  "drop (Suc 0) argv_long = L ''x.exe'' # replicate 16000 (L ''a'')"
  by (simp_all add: argv_long_def)

lemma length_cmdLine_direct_long: "length (cmdLine_direct argv_long) = 64007"
  by (simp add: cmdLine_direct_spec argv_long_facts length_spec_command_line L_def
      sum_list_replicate del: spec_command_line.simps)

lemma search_mode_checks_length:
  assumes "wmain Search os argv = (r, tr)"
    and "ret_SearchPath os (argv ! 1) (L ''.exe'') exePathBufLen = (pathLen, exePath)"
    and "unat exePathBufLen < length (cmdLine_search exePath argv)"
  shows "(r = Returns 1 \<or> r = Throws_bad_alloc) \<and> (\<forall>e\<in>set tr. \<not> is_child_event e)"
proof -
  from assms(1) have "wmain_search os argv = (r, tr)" by (simp add: wmain_def)
  from wmain_search_cases [OF this] assms(2,3) show ?thesis by auto
qed

lemma CPU_BITSCANFORWARD_Some:
  fixes Mask :: "'a::len word"
  assumes "CPU_BITSCANFORWARD Mask = Some index" and width: "LENGTH('a) \<le> 64"
  shows "bit Mask (unat index) \<and> (\<forall>j<unat index. \<not> bit Mask j) \<and> unat index < LENGTH('a)"
proof -
  from assms(1) obtain k where k: "bit_scan LENGTH('a) 0 Mask = Some k"
    and i: "index = of_nat k"
    by (auto simp: CPU_BITSCANFORWARD_def)
  from bit_scan_Some [OF k] have b: "bit Mask k" "k < LENGTH('a)"
    and least: "\<forall>j<k. \<not> bit Mask j" by auto
  from b width have "k < 2 ^ 32" by simp
  then have "unat index = k"
    by (simp add: i unat_of_nat)
  with b least show ?thesis by simp
qed

lemma acquire_affinity:
  assumes "acquire os = Inl (r, t) \<or> acquire os = Inr (j, a, t)"
    and "SetInformationJobObject job fl aff ok \<in> set t"
  shows "\<exists>Mask index. ret_GetProcessAffinityMask os = Some Mask
           \<and> CPU_BITSCANFORWARD Mask = Some index
           \<and> aff = Affinity_of_index os index
           \<and> fl = JOB_OBJECT_LIMIT_AFFINITY \<and> job = ret_CreateJobObject os"
  using assms
  by (auto simp: acquire_def Let_def in_dtors operator_new_def split: if_splits option.splits)

lemma job_affinity_one_cpu_32:
  fixes os :: "32 word os"
  assumes "acquire os = Inl (r, t) \<or> acquire os = Inr (j, a, t)"
    and "SetInformationJobObject job fl aff ok \<in> set t"
  shows "\<exists>Mask index. ret_GetProcessAffinityMask os = Some Mask
           \<and> CPU_BITSCANFORWARD Mask = Some index
           \<and> (\<forall>n. bit aff n \<longleftrightarrow> n = unat index)"
proof -
  from acquire_affinity [OF assms] obtain Mask index where
    m: "ret_GetProcessAffinityMask os = Some Mask"
    and i: "CPU_BITSCANFORWARD Mask = Some index"
    and a: "aff = Affinity_of_index os index" by blast
  from CPU_BITSCANFORWARD_Some [OF i] have "unat index < 32" by simp
  from Affinity_one_bit_32 [OF this] a have "\<forall>n. bit aff n \<longleftrightarrow> n = unat index" by simp
  with m i show ?thesis by blast
qed

lemma acquire_throws:
  assumes "acquire os = Inl (Throws_bad_alloc, t)"
  shows "ret_new os = 0 \<and> (\<exists>pre. t = pre @ [Bad_alloc (unat (attrListSize os))])"
  using assms
  by (auto simp: acquire_def Let_def operator_new_def split: if_splits option.splits)

lemma throws_only_without_memory:
  assumes run: "wmain m os argv = (Throws_bad_alloc, tr)"
  shows "ret_new os = 0 \<or> ret_make_unique os = 0"
proof (cases m)
  case Direct
  with run acquire_throws [of os] show ?thesis
    by (auto simp: wmain_def wmain_direct_def Let_def split: if_splits sum.splits prod.splits)
next
  case Search
  with run acquire_throws [of os] show ?thesis
    by (auto simp: wmain_def wmain_search_def Let_def operator_new_def
             split: if_splits sum.splits prod.splits)
qed

lemma exit_code_cases:
  assumes run: "wmain m os argv = (out, tr)"
  shows "(\<forall>p c. GetExitCodeProcess p (Some c) \<in> set tr \<longrightarrow> out = Returns c)
       \<and> ((\<forall>app cmd inh fl al p th. CreateProcess app cmd inh fl al (Some (p, th)) \<notin> set tr)
            \<longrightarrow> out = Returns 1 \<or> out = Throws_bad_alloc)
       \<and> (\<forall>p w. WaitForSingleObject p w \<in> set tr \<and> w \<noteq> WAIT_OBJECT_0 \<longrightarrow>
            out = Returns 0 \<and> (\<exists>app cmd al th.
              CreateProcess app cmd True creation_flags al (Some (p, th)) \<in> set tr))
       \<and> (\<forall>p. GetExitCodeProcess p None \<in> set tr \<longrightarrow>
            out = Returns 0 \<and> (\<exists>app cmd al th.
              CreateProcess app cmd True creation_flags al (Some (p, th)) \<in> set tr))"
  using wmain_cases [OF run]
proof (elim disjE [where P = "_ \<and> _"] exE conjE)
  assume out: "out = Returns 1 \<or> out = Throws_bad_alloc"
    and none: "\<forall>e\<in>set tr. \<not> is_child_event e"
  from none have "GetExitCodeProcess p c \<notin> set tr" and "WaitForSingleObject p w \<notin> set tr" for p c w
    by (auto simp: is_child_event_def)
  with out show ?thesis by simp
next
  fix pre post app cmd job al aff t code
  assume out: "out = Returns code"
    and tr: "tr = pre @ t @ post" and l: "launch os app cmd job al = (code, t)"
    and pre: "\<forall>e\<in>set pre. \<not> is_child_event e" and post: "\<forall>e\<in>set post. \<not> is_child_event e"
  have mem: "e \<in> set tr \<longleftrightarrow> e \<in> set t" if "is_child_event e" for e
    using that pre post by (auto simp: tr)
  have g: "GetExitCodeProcess p c \<in> set tr \<longleftrightarrow> GetExitCodeProcess p c \<in> set t"
    and w: "WaitForSingleObject p x \<in> set tr \<longleftrightarrow> WaitForSingleObject p x \<in> set t"
    and c: "CreateProcess a b i f d r \<in> set tr \<longleftrightarrow> CreateProcess a b i f d r \<in> set t"
    for p c x a b i f d r
    by (simp_all add: mem is_child_event_def)
  from launch_exit [OF l] show ?thesis
    unfolding g w c out by blast
qed

lemma exit_code_samples:
  "fst (wmain Direct os_ok argv_ok) = Returns 42"
  "fst (wmain Search os_ok argv_ok) = Returns 42"
  "fst (wmain Direct os_create_fails argv_ok) = Returns 1"
  "fst (wmain Direct os_wait_fails argv_ok) = Returns 0"
  "fst (wmain Direct os_exit_code_fails argv_ok) = Returns 0"
  by (simp_all add: runs_direct run_search_ok)

section \<open>The claims\<close>

text \<open>
  Claim C1. In every run of either variant, whatever the operating system answers:
  \<^verbatim>\<open>ResumeThread\<close> is called on a thread only after the job was given its affinity
  limit, the process owning that thread was created (with \<^verbatim>\<open>CREATE_SUSPENDED\<close>) and
  that process was assigned to the job with success. When the assignment fails,
  \<^verbatim>\<open>wmain\<close> calls \<^verbatim>\<open>TerminateProcess\<close> on the child afterwards, returns 1 and never
  resumes the thread; when \<^verbatim>\<open>ResumeThread\<close> fails, \<^verbatim>\<open>wmain\<close> calls \<^verbatim>\<open>TerminateProcess\<close>
  on the child afterwards and returns 1.
\<close>

theorem resume_only_after_binding:
  assumes run: "wmain m os argv = (out, tr)"
  shows "(\<forall>xs th r ys. tr = xs @ ResumeThread th r # ys \<longrightarrow>
            (\<exists>job p app cmd al aff.
               SetInformationJobObject job JOB_OBJECT_LIMIT_AFFINITY aff True \<in> set xs \<and>
               CreateProcess app cmd True creation_flags al (Some (p, th)) \<in> set xs \<and>
               AssignProcessToJobObject job p True \<in> set xs))
       \<and> (\<forall>xs job p ys. tr = xs @ AssignProcessToJobObject job p False # ys \<longrightarrow>
            out = Returns 1 \<and> TerminateProcess p 1 \<in> set ys
            \<and> (\<forall>th r. ResumeThread th r \<notin> set tr))
       \<and> (\<forall>xs th ys. tr = xs @ ResumeThread th (- 1) # ys \<longrightarrow>
            out = Returns 1 \<and> (\<exists>p app cmd al.
               CreateProcess app cmd True creation_flags al (Some (p, th)) \<in> set xs \<and>
               TerminateProcess p 1 \<in> set ys))
       \<and> creation_flags AND CREATE_SUSPENDED = CREATE_SUSPENDED"
proof -
  have flags: "creation_flags AND CREATE_SUSPENDED = CREATE_SUSPENDED"
    by (simp add: creation_flags_def CREATE_SUSPENDED_def CREATE_UNICODE_ENVIRONMENT_def
        EXTENDED_STARTUPINFO_PRESENT_def)
  from wmain_cases [OF run] show ?thesis
  proof (elim disjE [where P = "_ \<and> _"] exE conjE)
    assume none: "\<forall>e\<in>set tr. \<not> is_child_event e"
    have "tr \<noteq> xs @ e # ys" if "is_child_event e" for xs e ys
      using none that by auto
    then have "tr \<noteq> xs @ ResumeThread th r # ys"
      and "tr \<noteq> xs @ AssignProcessToJobObject job p b # ys" for xs th r ys job p b
      by (simp_all add: is_child_event_def)
    with flags show ?thesis by simp
  next
    fix pre post app cmd job al aff t code
    assume out: "out = Returns code"
      and tr: "tr = pre @ t @ post" and l: "launch os app cmd job al = (code, t)"
      and pre: "\<forall>e\<in>set pre. \<not> is_child_event e" and post: "\<forall>e\<in>set post. \<not> is_child_event e"
      and aff: "SetInformationJobObject job JOB_OBJECT_LIMIT_AFFINITY aff True \<in> set pre"
    have child: "\<exists>xs' ys'. t = xs' @ e # ys' \<and> xs = pre @ xs' \<and> ys = ys' @ post"
      if split: "tr = xs @ e # ys" and e: "is_child_event e" for xs e ys
    proof -
      from pre post e have "e \<notin> set pre" "e \<notin> set post" by auto
      from split_middle [OF tr [unfolded split, symmetric] this] show ?thesis .
    qed
    have 1: "\<exists>job p app cmd al aff.
               SetInformationJobObject job JOB_OBJECT_LIMIT_AFFINITY aff True \<in> set xs \<and>
               CreateProcess app cmd True creation_flags al (Some (p, th)) \<in> set xs \<and>
               AssignProcessToJobObject job p True \<in> set xs"
      if split: "tr = xs @ ResumeThread th r # ys" for xs th r ys
    proof -
      from child [OF split] obtain xs' ys' where t: "t = xs' @ ResumeThread th r # ys'"
        and xs: "xs = pre @ xs'"
        by (auto simp: is_child_event_def)
      from launch_resume_order [OF l t] obtain p where
        "CreateProcess app cmd True creation_flags al (Some (p, th)) \<in> set xs'"
        "AssignProcessToJobObject job p True \<in> set xs'" by blast
      with xs aff have
        "SetInformationJobObject job JOB_OBJECT_LIMIT_AFFINITY aff True \<in> set xs"
        "CreateProcess app cmd True creation_flags al (Some (p, th)) \<in> set xs"
        "AssignProcessToJobObject job p True \<in> set xs" by simp_all
      then show ?thesis by blast
    qed
    have 2: "out = Returns 1 \<and> TerminateProcess p 1 \<in> set ys \<and> (\<forall>th r. ResumeThread th r \<notin> set tr)"
      if split: "tr = xs @ AssignProcessToJobObject j p False # ys" for xs j p ys
    proof -
      from child [OF split] obtain xs' ys' where
        t: "t = xs' @ AssignProcessToJobObject j p False # ys'" and ys: "ys = ys' @ post"
        by (auto simp: is_child_event_def)
      from launch_assign_failure [OF l t] have a: "code = 1" "TerminateProcess p 1 \<in> set ys'"
        and no: "\<forall>th r. ResumeThread th r \<notin> set t" by auto
      have "ResumeThread th r \<notin> set tr" for th r
        using no pre post by (auto simp: tr is_child_event_def)
      with a ys out show ?thesis by simp
    qed
    have 3: "out = Returns 1 \<and> (\<exists>p app cmd al.
               CreateProcess app cmd True creation_flags al (Some (p, th)) \<in> set xs \<and>
               TerminateProcess p 1 \<in> set ys)"
      if split: "tr = xs @ ResumeThread th (- 1) # ys" for xs th ys
    proof -
      from child [OF split] obtain xs' ys' where t: "t = xs' @ ResumeThread th (- 1) # ys'"
        and xs: "xs = pre @ xs'" and ys: "ys = ys' @ post"
        by (auto simp: is_child_event_def)
      from launch_resume_failure [OF l t] obtain p where "code = 1"
        "CreateProcess app cmd True creation_flags al (Some (p, th)) \<in> set xs'"
        "TerminateProcess p 1 \<in> set ys'" by blast
      with xs ys out have "out = Returns 1"
        "CreateProcess app cmd True creation_flags al (Some (p, th)) \<in> set xs"
        "TerminateProcess p 1 \<in> set ys" by simp_all
      then show ?thesis by blast
    qed
    from 1 2 3 flags show ?thesis by blast
  qed
qed

theorem resume_only_after_binding_witness:
  "wmain Direct os_resume_fails argv_ok =
     (Returns 1, (acquired_ok @ [created_ok (L ''x.exe'') (cmdLine_direct argv_ok),
                         AssignProcessToJobObject 0x64 0x70 True])
         @ ResumeThread 0x74 (- 1)
         # [StderrNum ''ResumeThread failed with error code '' 5, TerminateProcess 0x70 1]
         @ released_ok)
   \<and> AssignProcessToJobObject 0x64 0x70 True
       \<in> set (acquired_ok @ [created_ok (L ''x.exe'') (cmdLine_direct argv_ok),
                              AssignProcessToJobObject 0x64 0x70 True])
   \<and> wmain Direct os_assign_fails argv_ok =
     (Returns 1, (acquired_ok @ [created_ok (L ''x.exe'') (cmdLine_direct argv_ok)])
         @ AssignProcessToJobObject 0x64 0x70 False
         # [StderrNum ''AssignProcessToJobObject failed with error code '' 5,
            TerminateProcess 0x70 1]
         @ released_ok)
   \<and> TerminateProcess 0x70 1
       \<in> set ([StderrNum ''AssignProcessToJobObject failed with error code '' 5,
                 TerminateProcess 0x70 1] @ released_ok)"
proof -
  have r: "wmain Direct os_resume_fails argv_ok =
     (Returns 1, (acquired_ok @ [created_ok (L ''x.exe'') (cmdLine_direct argv_ok),
                         AssignProcessToJobObject 0x64 0x70 True])
         @ ResumeThread 0x74 (- 1)
         # [StderrNum ''ResumeThread failed with error code '' 5, TerminateProcess 0x70 1]
         @ released_ok)"
    by (simp add: runs_direct released_ok_def)
  have a: "wmain Direct os_assign_fails argv_ok =
     (Returns 1, (acquired_ok @ [created_ok (L ''x.exe'') (cmdLine_direct argv_ok)])
         @ AssignProcessToJobObject 0x64 0x70 False
         # [StderrNum ''AssignProcessToJobObject failed with error code '' 5,
            TerminateProcess 0x70 1]
         @ released_ok)"
    by (simp add: runs_direct released_ok_def)
  note thm_a = resume_only_after_binding [OF a, THEN conjunct2, THEN conjunct1, rule_format, OF refl]
  note thm_r = resume_only_after_binding [OF r, THEN conjunct1, rule_format, OF refl]
  from thm_a
  have "TerminateProcess 0x70 1
       \<in> set ([StderrNum ''AssignProcessToJobObject failed with error code '' 5,
                 TerminateProcess 0x70 1] @ released_ok)"
    by (rule conjunct2 [THEN conjunct1])
  moreover from thm_r
  have "AssignProcessToJobObject 0x64 0x70 True
       \<in> set (acquired_ok @ [created_ok (L ''x.exe'') (cmdLine_direct argv_ok),
                              AssignProcessToJobObject 0x64 0x70 True])"
    by simp
  ultimately show ?thesis using r a by simp
qed

text \<open>
  Claim C2 says that the exit code of the tool is that of the child when it could be
  read, 1 on every failure before the process is created, and 0 when the wait or the
  reading of the exit code fails. The source tests both allocations against null in
  order to return 1 (lines 100-104, 260-263, 324-328), but they are plain \<^verbatim>\<open>new\<close>-expressions,
  which throw \<^verbatim>\<open>std::bad_alloc\<close>, and nothing catches it: when there is no memory for
  the attribute list or for the path buffer, no process is created and \<^verbatim>\<open>wmain\<close> does
  not return 1, the program is ended by \<^verbatim>\<open>std::terminate\<close>. In every other run the
  claim holds (\<open>exit_code_cases\<close>, \<open>throws_only_without_memory\<close>).
\<close>

theorem allocation_failure_ends_without_return:
  "wmain Direct os_new_fails argv_ok =
     (Throws_bad_alloc,
      [CreateJobObject 0x64, GetProcessAffinityMask (Some 6),
       SetInformationJobObject 0x64 JOB_OBJECT_LIMIT_AFFINITY 2 True,
       InitializeProcThreadAttributeList 0 1 False, Bad_alloc 48])
   \<and> wmain Search os_new_fails argv_ok =
     (Throws_bad_alloc,
      searched_ok @
      [CreateJobObject 0x64, GetProcessAffinityMask (Some 6),
       SetInformationJobObject 0x64 JOB_OBJECT_LIMIT_AFFINITY 2 True,
       InitializeProcThreadAttributeList 0 1 False, Bad_alloc 48])
   \<and> wmain Search os_make_unique_fails argv_ok = (Throws_bad_alloc, [Bad_alloc 32767])
   \<and> fst (wmain Direct os_new_fails argv_ok) \<noteq> Returns 1"
proof -
  have a: "acquire os_new_fails =
     Inl (Throws_bad_alloc,
      [CreateJobObject 0x64, GetProcessAffinityMask (Some 6),
       SetInformationJobObject 0x64 JOB_OBJECT_LIMIT_AFFINITY 2 True,
       InitializeProcThreadAttributeList 0 1 False, Bad_alloc 48])"
    by (simp add: acquire_def os_samples Let_def CPU_BITSCANFORWARD_6
        ERROR_INSUFFICIENT_BUFFER_def Affinity_of_index_def shl_int_def operator_new_def)
  have 1: "wmain Direct os_new_fails argv_ok =
     (Throws_bad_alloc,
      [CreateJobObject 0x64, GetProcessAffinityMask (Some 6),
       SetInformationJobObject 0x64 JOB_OBJECT_LIMIT_AFFINITY 2 True,
       InitializeProcThreadAttributeList 0 1 False, Bad_alloc 48])"
    by (simp add: wmain_def wmain_direct_def argv_ok_facts a)
  have s: "ret_make_unique os_new_fails = 0x1000"
    "ret_SearchPath os_new_fails name ext len = (15, tool_exe)"
    "ret_make_unique os_make_unique_fails = 0" for name ext len
    by (simp_all add: os_samples)
  have 2: "wmain Search os_new_fails argv_ok =
     (Throws_bad_alloc,
      searched_ok @
      [CreateJobObject 0x64, GetProcessAffinityMask (Some 6),
       SetInformationJobObject 0x64 JOB_OBJECT_LIMIT_AFFINITY 2 True,
       InitializeProcThreadAttributeList 0 1 False, Bad_alloc 48])"
    by (simp add: wmain_def wmain_search_def argv_ok_facts a s operator_new_def Let_def
        exePathBufLen_def searched_ok_def at_return_def)
  have 3: "wmain Search os_make_unique_fails argv_ok = (Throws_bad_alloc, [Bad_alloc 32767])"
    by (simp add: wmain_def wmain_search_def argv_ok_facts s operator_new_def exePathBufLen_def)
  from 1 2 3 show ?thesis by simp
qed

text \<open>
  Claim C3 says that the affinity given to the job has exactly one bit set, the bit of
  the selected CPU, for every index within the width of the mask. The 64-bit build
  computes something else for CPU 31: the mask \<open>0x80000000\<close> selects index 31,
  \<^verbatim>\<open>1 << 31\<close> is the most negative \<^verbatim>\<open>int\<close>, its conversion to the 64-bit \<^verbatim>\<open>Affinity\<close>
  has the bits 31 to 63 set, and this value is what \<^verbatim>\<open>wmain\<close> passes to
  \<^verbatim>\<open>SetInformationJobObject\<close>. For an index below 31, and for every index of the 32-bit
  build, the affinity is the one bit of the index (\<open>Affinity_one_bit_below_31\<close>,
  \<open>Affinity_one_bit_32\<close>, \<open>job_affinity_one_cpu_32\<close>).
\<close>

theorem affinity_of_cpu31_sets_33_bits:
  "CPU_BITSCANFORWARD (0x80000000 :: 64 word) = Some 31
   \<and> Affinity_of_index os_cpu31 31 = (0xFFFFFFFF80000000 :: 64 word)
   \<and> bit (Affinity_of_index os_cpu31 31 :: 64 word) 31
   \<and> bit (Affinity_of_index os_cpu31 31 :: 64 word) 32
   \<and> bit (Affinity_of_index os_cpu31 31 :: 64 word) 63
   \<and> SetInformationJobObject 0x64 JOB_OBJECT_LIMIT_AFFINITY 0xFFFFFFFF80000000 True
        \<in> set (snd (wmain Direct os_cpu31 argv_ok))"
proof -
  have a: "Affinity_of_index os_cpu31 31 = (0xFFFFFFFF80000000 :: 64 word)"
    by (simp add: Affinity_of_index_def shl_int_def)
  have "acquire os_cpu31 =
          Inr (0x64, 0x2000,
               [CreateJobObject 0x64, GetProcessAffinityMask (Some 0x80000000),
                SetInformationJobObject 0x64 JOB_OBJECT_LIMIT_AFFINITY 0xFFFFFFFF80000000 True,
                InitializeProcThreadAttributeList 0 1 False, Allocate 48 0x2000,
                InitializeProcThreadAttributeList 0x2000 1 True,
                UpdateProcThreadAttribute 0x2000 [0x10, 0x14, 0x18] True])"
    by (simp add: acquire_def os_samples Let_def CPU_BITSCANFORWARD_cpu31
        ERROR_INSUFFICIENT_BUFFER_def Affinity_of_index_def shl_int_def operator_new_def)
  then have "SetInformationJobObject 0x64 JOB_OBJECT_LIMIT_AFFINITY 0xFFFFFFFF80000000 True
        \<in> set (snd (wmain Direct os_cpu31 argv_ok))"
    by (simp add: wmain_def wmain_direct_def argv_ok_facts split: prod.splits)
  with a CPU_BITSCANFORWARD_cpu31 show ?thesis
    by (simp add: Affinity_cpu31_bits)
qed

text \<open>
  Claim C4 says that with an empty affinity mask the selection fails and no job
  object exists at that point. On the sample machine with an empty mask \<^verbatim>\<open>wmain\<close>
  returns 1, but it has created the job object \<open>0x64\<close> before it reads the mask, and
  closes it on return.
\<close>

theorem zero_mask_job_exists_counterexample:
  "ret_GetProcessAffinityMask os_zero_mask = Some 0
   \<and> wmain Direct os_zero_mask argv_ok =
       (Returns 1, [CreateJobObject 0x64, GetProcessAffinityMask (Some 0),
            Stderr ''CPU affinity mask is zero?!'', CloseHandle 0x64])
   \<and> CreateJobObject 0x64 \<in> set (snd (wmain Direct os_zero_mask argv_ok))"
  by (simp add: wmain_def wmain_direct_def argv_ok_facts acquire_def os_samples Let_def
      CPU_BITSCANFORWARD_zero dtor_defs)

text \<open>
  Claim C4, as the program has it. In every run of either variant in which the affinity
  mask read is zero, \<^verbatim>\<open>wmain\<close> returns 1; the job object was created just before the
  mask was read, the diagnostic follows the reading and the handle of the job is closed
  right after it; no limit is set on the job and no call acts on a child process.
\<close>

theorem zero_mask_fails_after_job_creation:
  assumes run: "wmain m os argv = (out, tr)"
    and zero: "GetProcessAffinityMask (Some 0) \<in> set tr"
  shows "out = Returns 1
       \<and> (\<exists>xs ys job. job \<noteq> 0 \<and>
             tr = xs @ [CreateJobObject job, GetProcessAffinityMask (Some 0),
                        Stderr ''CPU affinity mask is zero?!'', CloseHandle job] @ ys)
       \<and> (\<forall>e\<in>set tr. \<not> is_child_event e)
       \<and> (\<forall>job fl aff ok. SetInformationJobObject job fl aff ok \<notin> set tr)"
proof -
  let ?shape = "\<lambda>tr. \<exists>xs ys job. job \<noteq> 0 \<and>
             tr = xs @ [CreateJobObject job, GetProcessAffinityMask (Some 0),
                        Stderr ''CPU affinity mask is zero?!'', CloseHandle job] @ ys"
  let ?z = "[CreateJobObject (ret_CreateJobObject os), GetProcessAffinityMask (Some 0),
             Stderr ''CPU affinity mask is zero?!'', CloseHandle (ret_CreateJobObject os)]"
  show ?thesis
  proof (cases "acquire os")
    case (Inl x)
    obtain r' t where x: "x = (r', t)" by (cases x)
    note Inl = Inl [unfolded x]
    show ?thesis
    proof (cases m)
      case Direct
      with run zero Inl have t: "tr = t" and o: "out = r'"
        by (auto simp: wmain_def wmain_direct_def split: if_splits)
      from acquire_zero_mask [OF Inl zero [unfolded t]] o
      have j: "ret_CreateJobObject os \<noteq> 0" and tz: "t = ?z" and c: "out = Returns 1" by auto
      from j tz t have "?shape tr"
        by (intro exI [of _ "[]"] exI [of _ "ret_CreateJobObject os"]) simp
      moreover from t tz have "\<forall>e\<in>set tr. \<not> is_child_event e"
        and "\<forall>job fl aff ok. SetInformationJobObject job fl aff ok \<notin> set tr"
        by (auto simp: is_child_event_def)
      ultimately show ?thesis using c by blast
    next
      case Search
      obtain len app where sp: "ret_SearchPath os (argv ! 1) (L ''.exe'') exePathBufLen = (len, app)"
        by (cases "ret_SearchPath os (argv ! 1) (L ''.exe'') exePathBufLen")
      let ?pre = "[Allocate (unat exePathBufLen) (ret_make_unique os),
                   SearchPath (argv ! 1) (L ''.exe'') exePathBufLen len]"
      from run zero Inl Search sp
      have t: "tr = ?pre @ t @ at_return r' (array_dtor (ret_make_unique os))" and o: "out = r'"
        and zt: "GetProcessAffinityMask (Some 0) \<in> set t"
        by (auto simp: wmain_def wmain_search_def Let_def in_dtors operator_new_def
                 split: if_splits dest!: in_at_return)
      from acquire_zero_mask [OF Inl zt] o
      have j: "ret_CreateJobObject os \<noteq> 0" and tz: "t = ?z" and c: "out = Returns 1" by auto
      from c o have ar: "at_return r' (array_dtor (ret_make_unique os)) = array_dtor (ret_make_unique os)"
        by (simp add: at_return_def)
      note t = t [unfolded ar]
      from j tz t have "?shape tr"
        by (intro exI [of _ ?pre] exI [of _ "array_dtor (ret_make_unique os)"]
              exI [of _ "ret_CreateJobObject os"]) simp
      moreover from t tz have "\<forall>e\<in>set tr. \<not> is_child_event e"
        and "\<forall>job fl aff ok. SetInformationJobObject job fl aff ok \<notin> set tr"
        by (auto simp: is_child_event_def in_dtors)
      ultimately show ?thesis using c by blast
    qed
  next
    case (Inr x)
    obtain job al t where x: "x = (job, al, t)" by (cases x)
    from acquire_Inr [OF Inr [unfolded x]]
    have nz: "GetProcessAffinityMask (Some 0) \<notin> set t" by simp
    from run zero Inr x nz have False
      by (cases m)
        (auto simp: wmain_def wmain_direct_def wmain_search_def Let_def in_dtors operator_new_def
             split: if_splits prod.splits dest: launch_no_mask_query)
    then show ?thesis ..
  qed
qed

theorem zero_mask_fails_after_job_creation_witness:
  "wmain Direct os_zero_mask argv_ok =
       (Returns 1, [] @ [CreateJobObject 0x64, GetProcessAffinityMask (Some 0),
            Stderr ''CPU affinity mask is zero?!'', CloseHandle 0x64] @ [])
   \<and> GetProcessAffinityMask (Some 0) \<in> set (snd (wmain Direct os_zero_mask argv_ok))
   \<and> fst (wmain Direct os_zero_mask argv_ok) = Returns 1
   \<and> SetInformationJobObject 0x64 JOB_OBJECT_LIMIT_AFFINITY 1 True
        \<notin> set (snd (wmain Direct os_zero_mask argv_ok))"
proof -
  have r: "wmain Direct os_zero_mask argv_ok =
       (Returns 1, [CreateJobObject 0x64, GetProcessAffinityMask (Some 0),
            Stderr ''CPU affinity mask is zero?!'', CloseHandle 0x64])"
    by (simp add: wmain_def wmain_direct_def argv_ok_facts acquire_def os_samples Let_def
        CPU_BITSCANFORWARD_zero dtor_defs)
  then have z: "GetProcessAffinityMask (Some 0) \<in> set (snd (wmain Direct os_zero_mask argv_ok))"
    by simp
  from zero_mask_fails_after_job_creation [OF prod.collapse [symmetric] z]
  have "fst (wmain Direct os_zero_mask argv_ok) = Returns 1"
    and "SetInformationJobObject 0x64 JOB_OBJECT_LIMIT_AFFINITY 1 True
        \<notin> set (snd (wmain Direct os_zero_mask argv_ok))"
    by blast+
  with r z show ?thesis by simp
qed

text \<open>
  Claim C5 says that in both variants a command line beyond the limit makes the
  assembly fail, with no process created. The second variant tests the length
  (\<open>search_mode_checks_length\<close>); the first has no such test. For the 16000 arguments
  of \<open>argv_long\<close> it assembles 64007 characters and passes them to \<^verbatim>\<open>CreateProcess\<close>:
  on a machine that refuses them the diagnostic is the one of \<^verbatim>\<open>CreateProcess\<close>, and
  on a machine that accepts them the child runs.
\<close>

theorem direct_mode_has_no_length_check:
  "length (cmdLine_direct argv_long) = 64007
   \<and> unat exePathBufLen < length (cmdLine_direct argv_long)
   \<and> wmain Direct os_limit argv_long =
       (Returns 1, acquired_ok @
           [CreateProcess (L ''x.exe'') (cmdLine_direct argv_long) True creation_flags 0x2000 None,
            StderrNum ''CreateProcess failed with error code '' 87,
            DeleteProcThreadAttributeList 0x2000, Delete 0x2000, CloseHandle 0x64])
   \<and> wmain Direct os_ok argv_long =
       (Returns 42, acquired_ok @
            [created_ok (L ''x.exe'') (cmdLine_direct argv_long),
             AssignProcessToJobObject 0x64 0x70 True, ResumeThread 0x74 1,
             WaitForSingleObject 0x70 0, GetExitCodeProcess 0x70 (Some 42)] @ released_ok)"
proof -
  have l: "launch os_limit (L ''x.exe'') (cmdLine_direct argv_long) 0x64 0x2000 =
             (1, [CreateProcess (L ''x.exe'') (cmdLine_direct argv_long) True creation_flags 0x2000 None,
                  StderrNum ''CreateProcess failed with error code '' 87])"
    by (simp add: launch_def os_samples length_cmdLine_direct_long)
  have 1: "wmain Direct os_limit argv_long =
       (Returns 1, acquired_ok @
           [CreateProcess (L ''x.exe'') (cmdLine_direct argv_long) True creation_flags 0x2000 None,
            StderrNum ''CreateProcess failed with error code '' 87,
            DeleteProcThreadAttributeList 0x2000, Delete 0x2000, CloseHandle 0x64])"
    by (simp add: wmain_def wmain_direct_def argv_long_facts acquire_samples l dtor_defs)
  have 2: "wmain Direct os_ok argv_long =
       (Returns 42, acquired_ok @
            [created_ok (L ''x.exe'') (cmdLine_direct argv_long),
             AssignProcessToJobObject 0x64 0x70 True, ResumeThread 0x74 1,
             WaitForSingleObject 0x70 0, GetExitCodeProcess 0x70 (Some 42)] @ released_ok)"
    by (simp add: wmain_def wmain_direct_def argv_long_facts acquire_samples launch_samples
        dtor_defs released_ok_def)
  from 1 2 show ?thesis
    by (simp add: length_cmdLine_direct_long exePathBufLen_def)
qed

text \<open>
  Claim C6. For every affinity mask other than zero, of a width of at most 64 bits,
  the scan succeeds, and the index it gives is the position of the lowest set bit: the
  bit at the index is set, no bit below it is, and the index is less than the width.
\<close>

theorem lowest_set_bit_selected:
  fixes Mask :: "'a::len word"
  assumes nz: "Mask \<noteq> 0" and width: "LENGTH('a) \<le> 64"
  shows "\<exists>index. CPU_BITSCANFORWARD Mask = Some index \<and> bit Mask (unat index)
           \<and> (\<forall>j<unat index. \<not> bit Mask j) \<and> unat index < LENGTH('a)"
proof -
  from nz obtain j where j: "bit Mask j"
    by (auto simp: bit_eq_iff)
  then have "j < LENGTH('a)" by (rule bit_imp_le_length)
  with j have "bit_scan LENGTH('a) 0 Mask \<noteq> None"
    by (auto simp: bit_scan_None)
  then obtain k where k: "bit_scan LENGTH('a) 0 Mask = Some k" by auto
  from bit_scan_Some [OF k] have b: "bit Mask k" "k < LENGTH('a)"
    and least: "\<forall>j<k. \<not> bit Mask j" by auto
  from b width have "k < 2 ^ 32" by simp
  then have u: "unat (of_nat k :: dword) = k"
    by (simp add: unat_of_nat)
  from k have "CPU_BITSCANFORWARD Mask = Some (of_nat k)"
    by (simp add: CPU_BITSCANFORWARD_def)
  with u b least show ?thesis by auto
qed

theorem lowest_set_bit_selected_witness:
  "(6 :: 64 word) \<noteq> 0 \<and> LENGTH(64) \<le> 64 \<and> CPU_BITSCANFORWARD (6 :: 64 word) = Some 1
   \<and> bit (6 :: 64 word) 1 \<and> \<not> bit (6 :: 64 word) 0"
  using lowest_set_bit_selected [of "6 :: 64 word"]
  by (simp add: CPU_BITSCANFORWARD_6)

text \<open>
  Claim C7. For every argument vector the command line assembled by the first variant
  is the one the quoting rule gives for the arguments from the first on, and the one
  assembled by the second variant is the one the rule gives for the path found followed
  by the arguments from the second on; neither ends in a space; and for \<^verbatim>\<open>x.exe\<close> with
  the arguments \<^verbatim>\<open>a b\<close> and \<^verbatim>\<open>c\<close> the first variant assembles \<open>cmdLine_direct_ok\<close>.
\<close>

theorem command_line_quoting:
  "cmdLine_direct argv = spec_command_line (drop 1 argv)
   \<and> cmdLine_search exePath argv = spec_command_line (exePath # drop 2 argv)
   \<and> (\<nexists>s. cmdLine_direct argv = s @ [SPACE])
   \<and> (\<nexists>s. cmdLine_search exePath argv = s @ [SPACE])
   \<and> cmdLine_direct [L ''rununiproc'', L ''x.exe'', L ''a b'', L ''c''] = cmdLine_direct_ok"
proof -
  have "cmdLine_direct [L ''rununiproc'', L ''x.exe'', L ''a b'', L ''c''] = cmdLine_direct_ok"
    by (simp add: cmdLine_direct_spec quoted_def cmdLine_direct_ok_def)
  then show ?thesis
    by (simp add: cmdLine_direct_spec cmdLine_search_spec no_trailing_space del: spec_command_line.simps)
qed

theorem command_line_quoting_witness:
  "cmdLine_direct argv_ok = cmdLine_direct_ok
   \<and> cmdLine_search tool_exe argv_ok = cmdLine_search_ok"
  using command_line_quoting [of argv_ok tool_exe]
  by (simp add: argv_ok_def quoted_def cmdLine_direct_ok_def cmdLine_search_ok_def)

text \<open>
  Claim C8. In every run of the second variant that calls \<^verbatim>\<open>CreateProcess\<close>, the
  application name passed is the path \<^verbatim>\<open>SearchPath\<close> left in the buffer, and the command
  line passed starts with that path between double quotes, followed, when there are
  arguments from the second on, by a space and these arguments quoted: it is what the
  quoting rule gives for the path and the arguments from the second on.
\<close>

theorem search_mode_uses_resolved_path:
  assumes run: "wmain Search os argv = (out, tr)"
    and created: "CreateProcess app cmd inh fl al r \<in> set tr"
  shows "(\<exists>pathLen. ret_SearchPath os (argv ! 1) (L ''.exe'') exePathBufLen = (pathLen, app)
            \<and> pathLen \<noteq> 0 \<and> pathLen < exePathBufLen)
       \<and> cmd = quoted app @ (if 2 < length argv then [SPACE] @ spec_command_line (drop 2 argv) else [])
       \<and> take (length app + 2) cmd = quoted app
       \<and> cmd = spec_command_line (app # drop 2 argv)"
proof -
  from run have "wmain_search os argv = (out, tr)" by (simp add: wmain_def)
  from wmain_search_cases [OF this] created obtain pre post job al' t len app' code where
    tr: "tr = ([Allocate (unat exePathBufLen) (ret_make_unique os),
               SearchPath (argv ! 1) (L ''.exe'') exePathBufLen len] @ pre) @ t @ post"
    and acq: "acquire os = Inr (job, al', pre)"
    and sp: "ret_SearchPath os (argv ! 1) (L ''.exe'') exePathBufLen = (len, app')"
    and len: "len \<noteq> 0" "len < exePathBufLen"
    and l: "launch os app' (cmdLine_search app' argv) job al' = (code, t)"
    and post: "\<forall>e\<in>set post. \<not> is_child_event e"
    by (auto simp: is_child_event_def)
  from acquire_Inr [OF acq] have pre: "\<forall>e\<in>set pre. \<not> is_child_event e" by simp
  from created pre post have "CreateProcess app cmd inh fl al r \<in> set t"
    by (auto simp: tr is_child_event_def)
  from launch_create [OF l this] have a: "app = app'" and c: "cmd = cmdLine_search app argv"
    by simp_all
  have d: "drop 2 argv \<noteq> [] \<longleftrightarrow> 2 < length argv" by auto
  have "cmd = quoted app @ (if 2 < length argv then [SPACE] @ spec_command_line (drop 2 argv) else [])"
    unfolding c cmdLine_search_spec spec_command_line_Cons using d by simp
  moreover from this have "take (length app + 2) cmd = quoted app"
    by (simp add: quoted_def)
  ultimately show ?thesis using sp len a c cmdLine_search_spec by auto
qed

theorem search_mode_uses_resolved_path_witness:
  "created_ok tool_exe cmdLine_search_ok \<in> set (snd (wmain Search os_ok argv_ok))
   \<and> ret_SearchPath os_ok (argv_ok ! 1) (L ''.exe'') exePathBufLen = (15, tool_exe)
   \<and> take (length tool_exe + 2) cmdLine_search_ok = quoted tool_exe
   \<and> cmdLine_search_ok = spec_command_line (tool_exe # drop 2 argv_ok)"
proof -
  have c: "created_ok tool_exe cmdLine_search_ok \<in> set (snd (wmain Search os_ok argv_ok))"
    unfolding cmdLine_search_sample [symmetric] by (simp add: run_search_ok)
  from search_mode_uses_resolved_path [OF prod.collapse [symmetric] c [unfolded created_ok_def]]
  have "take (length tool_exe + 2) cmdLine_search_ok = quoted tool_exe"
    and "cmdLine_search_ok = spec_command_line (tool_exe # drop 2 argv_ok)" by blast+
  with c show ?thesis by (simp add: os_ok_search)
qed

text \<open>
  Claim C9. In the second variant, when \<^verbatim>\<open>SearchPath\<close> returns a length that is the
  capacity of the buffer or more, \<^verbatim>\<open>wmain\<close> writes that the path is too long, frees the
  buffer and returns 1, having made no other call: no job object and no process is
  created.
\<close>

theorem search_path_too_long:
  assumes "2 \<le> length argv" and "ret_make_unique os \<noteq> 0"
    and "ret_SearchPath os (argv ! 1) (L ''.exe'') exePathBufLen = (pathLen, exePath)"
    and "exePathBufLen \<le> pathLen"
  shows "wmain Search os argv =
           (Returns 1, [Allocate (unat exePathBufLen) (ret_make_unique os),
                SearchPath (argv ! 1) (L ''.exe'') exePathBufLen pathLen,
                Stderr ''SearchPath failed: path too long.'',
                Delete (ret_make_unique os)])"
proof -
  from assms(4) have "pathLen \<noteq> 0" by (auto simp: exePathBufLen_def)
  with assms show ?thesis
    by (simp add: wmain_def wmain_search_def dtor_defs Let_def operator_new_def)
qed

theorem search_path_too_long_witness:
  "2 \<le> length argv_ok \<and> ret_make_unique os_long_path \<noteq> 0
   \<and> ret_SearchPath os_long_path (argv_ok ! 1) (L ''.exe'') exePathBufLen = (40000, [])
   \<and> exePathBufLen \<le> 40000
   \<and> wmain Search os_long_path argv_ok =
           (Returns 1, [Allocate (unat exePathBufLen) 0x1000,
                SearchPath (argv_ok ! 1) (L ''.exe'') exePathBufLen 40000,
                Stderr ''SearchPath failed: path too long.'',
                Delete 0x1000])"
proof -
  have 1: "2 \<le> length argv_ok" by (simp add: argv_ok_facts)
  have 2: "ret_make_unique os_long_path \<noteq> 0" by (simp add: os_samples)
  have 3: "ret_SearchPath os_long_path (argv_ok ! 1) (L ''.exe'') exePathBufLen = (40000, [])"
    by (simp add: os_samples)
  have 4: "exePathBufLen \<le> 40000" by (simp add: exePathBufLen_def)
  have 5: "ret_make_unique os_long_path = 0x1000" by (simp add: os_samples)
  from search_path_too_long [OF 1 2 3 4] 1 2 3 4 show ?thesis
    unfolding 5 by simp
qed

text \<open>
  Claim C10. With fewer than two entries in the argument vector, either variant
  writes one line to the standard error stream and returns 1, and makes no other call.
\<close>

theorem too_few_arguments:
  assumes "length argv < 2"
  shows "wmain m os argv = (Returns 1, [Stderr ''At least one argument required.''])"
  using assms by (cases m) (simp_all add: wmain_def wmain_direct_def wmain_search_def)

theorem too_few_arguments_witness:
  "length [L ''rununiproc''] < 2
   \<and> wmain Direct os_ok [L ''rununiproc''] = (Returns 1, [Stderr ''At least one argument required.''])
   \<and> wmain Search os_ok [L ''rununiproc''] = (Returns 1, [Stderr ''At least one argument required.''])
   \<and> wmain Search os_ok [] = (Returns 1, [Stderr ''At least one argument required.''])"
  using too_few_arguments [of "[L ''rununiproc'']" Direct os_ok]
    too_few_arguments [of "[L ''rununiproc'']" Search os_ok]
    too_few_arguments [of "[]" Search os_ok]
  by simp

end
